theory Spec2Isabelle
  imports Complex_Main "HOL-Library.Sublist"
begin

section \<open>The store: tables, roles and row-level policies\<close>

text \<open>
  The application is a set of React pages that talk to a remote relational store.
  The tables and their row-level policies are the SQL of the repository (the
  \<^verbatim>\<open>CREATE TABLE\<close> and \<^verbatim>\<open>CREATE POLICY\<close> statements that follow the component in
  \<^verbatim>\<open>Navbar.tsx\<close>); the pages are \<^verbatim>\<open>Cart.tsx\<close>, \<^verbatim>\<open>Products.tsx\<close>, \<^verbatim>\<open>Orders.tsx\<close> and
  \<^verbatim>\<open>Admin.tsx\<close>.

  Identifiers are UUIDs, which the pages handle as strings. Money columns are
  \<^verbatim>\<open>DECIMAL(10,2)\<close> and JavaScript numbers on the client; they are modelled as exact
  rationals, so that \<^verbatim>\<open>59.99\<close> is the number \<open>5999/100\<close>. The prices the pages compute
  with come from such columns, and a sum of products of two-decimal prices and whole
  quantities is again a two-decimal amount, which a money column stores as it is; so
  the model has no rounding. Quantities and stock are
  \<^verbatim>\<open>INTEGER\<close> columns with no \<^verbatim>\<open>CHECK\<close> constraint, hence \<open>int\<close>. Timestamps are
  natural numbers. The columns \<^verbatim>\<open>category\<close>, \<^verbatim>\<open>updated_at\<close>, \<^verbatim>\<open>shipping_address\<close> and the
  row identifier of \<^verbatim>\<open>order_items\<close> are read by none of the modelled code and are
  left out.
\<close>

type_synonym uuid = string

datatype app_role = Admin | User

record product =
  p_id :: uuid
  p_name :: string
  p_description :: string
  p_price :: rat
  p_image_url :: string
  p_brand :: string
  p_size_available :: "string list"
  p_stock_quantity :: int
  p_is_active :: bool
  p_created_at :: nat

record cart_row =
  c_id :: uuid
  c_user_id :: uuid
  c_product_id :: uuid
  c_quantity :: int
  c_selected_size :: string

record order_row =
  o_id :: uuid
  o_user_id :: uuid
  o_total_amount :: rat
  o_status :: string
  o_created_at :: nat

record order_item_row =
  oi_order_id :: uuid
  oi_product_id :: uuid
  oi_quantity :: int
  oi_price :: rat
  oi_selected_size :: string

record db =
  products :: "product list"
  cart :: "cart_row list"
  orders :: "order_row list"
  order_items :: "order_item_row list"
  user_roles :: "(uuid \<times> app_role) list"

text \<open>
  \<^verbatim>\<open>has_role(_user_id, _role)\<close>: a row of \<^verbatim>\<open>user_roles\<close> with that user and role exists.
\<close>

definition has_role :: "db \<Rightarrow> uuid \<Rightarrow> app_role \<Rightarrow> bool" where
  "has_role d uid r = ((uid, r) \<in> set (user_roles d))"

text \<open>
  The policies on \<^verbatim>\<open>products\<close>: "Anyone can view active products" (\<^verbatim>\<open>FOR SELECT\<close>) and
  "Admins can manage products" (\<^verbatim>\<open>FOR ALL\<close>). A caller is the identity \<^verbatim>\<open>auth.uid()\<close>,
  absent for an anonymous visitor. A row that no policy of the command admits is
  invisible to a \<^verbatim>\<open>SELECT\<close> and skipped, without an error, by an \<^verbatim>\<open>UPDATE\<close>.
\<close>

definition is_admin :: "db \<Rightarrow> uuid option \<Rightarrow> bool" where
  "is_admin d caller = (case caller of None \<Rightarrow> False | Some uid \<Rightarrow> has_role d uid Admin)"

definition products_select_policy :: "db \<Rightarrow> uuid option \<Rightarrow> product \<Rightarrow> bool" where
  "products_select_policy d caller p = (p_is_active p \<or> is_admin d caller)"

definition products_update_policy :: "db \<Rightarrow> uuid option \<Rightarrow> product \<Rightarrow> bool" where
  "products_update_policy d caller p = is_admin d caller"

text \<open>
  The policies on \<^verbatim>\<open>orders\<close> and \<^verbatim>\<open>order_items\<close> for \<^verbatim>\<open>SELECT\<close>: the owner's rows, and
  every row for an admin.
\<close>

definition orders_select_policy :: "db \<Rightarrow> uuid option \<Rightarrow> order_row \<Rightarrow> bool" where
  "orders_select_policy d caller ord = (caller = Some (o_user_id ord) \<or> is_admin d caller)"

definition order_items_select_policy :: "db \<Rightarrow> uuid option \<Rightarrow> order_item_row \<Rightarrow> bool" where
  "order_items_select_policy d caller it =
     (list_ex (\<lambda>ord. o_id ord = oi_order_id it \<and> caller = Some (o_user_id ord)) (orders d)
      \<or> is_admin d caller)"

text \<open>
  \<^verbatim>\<open>from('products').update(patch).eq('id', pid)\<close>, issued by \<open>caller\<close>: the patch is
  applied to every row with that id which the update policy admits.
\<close>

definition update_products ::
  "uuid option \<Rightarrow> uuid \<Rightarrow> (product \<Rightarrow> product) \<Rightarrow> db \<Rightarrow> db" where
  "update_products caller pid patch d =
     d\<lparr>products :=
         map (\<lambda>p. if p_id p = pid \<and> products_update_policy d caller p then patch p else p)
           (products d)\<rparr>"

text \<open>\<^verbatim>\<open>.order('created_at', { ascending: false })\<close>\<close>

definition order_desc :: "('a \<Rightarrow> nat) \<Rightarrow> 'a list \<Rightarrow> 'a list" where
  "order_desc key rows = rev (sort_key key rows)"

section \<open>What a handler does besides writing to the store\<close>

text \<open>
  The handlers are \<^verbatim>\<open>async\<close> functions that return nothing. What they do is observed
  as the store they leave and the sequence of their other effects: the \<^verbatim>\<open>placing\<close>
  and \<^verbatim>\<open>loading\<close> flags, \<^verbatim>\<open>console.error\<close>, the two kinds of toast, and navigation.
\<close>

datatype event =
    SetPlacing bool
  | SetLoading bool
  | ConsoleError string
  | ToastError string
  | ToastSuccess string
  | Navigate string

text \<open>An error is reported to the user by \<^verbatim>\<open>toast.error\<close> and logged by \<^verbatim>\<open>console.error\<close>.\<close>

fun is_logged :: "event \<Rightarrow> bool" where
  "is_logged (ConsoleError m) = True"
| "is_logged e = False"

fun is_surfaced :: "event \<Rightarrow> bool" where
  "is_surfaced (ToastError m) = True"
| "is_surfaced e = False"

definition logged :: "event list \<Rightarrow> bool" where
  "logged evs = list_ex is_logged evs"

definition surfaced :: "event list \<Rightarrow> bool" where
  "surfaced evs = list_ex is_surfaced evs"

section \<open>The cart page (Cart.tsx)\<close>

text \<open>
  A cart line as the page holds it: the cart row with the product embedded as it was
  fetched when the cart was loaded. The hook \<^verbatim>\<open>useCart\<close> that loads it is not among
  the sources; the fields are the ones \<^verbatim>\<open>Cart.tsx\<close> reads.
\<close>

record cart_item =
  ci_id :: uuid
  ci_product_id :: uuid
  ci_quantity :: int
  ci_selected_size :: string
  ci_product :: product

text \<open>
  \<^verbatim>\<open>const total = cartItems.reduce((sum, item) => sum + (item.product.price * item.quantity), 0)\<close>
  (named \<open>total_of\<close>, since \<open>total\<close> is a constant of the library).
\<close>

definition total_of :: "cart_item list \<Rightarrow> rat" where
  "total_of cartItems =
     foldl (\<lambda>sum item. sum + p_price (ci_product item) * of_int (ci_quantity item)) 0 cartItems"

text \<open>
  \<^verbatim>\<open>handleQuantityChange\<close>. The hook's \<^verbatim>\<open>updateQuantity\<close> is a parameter: from the line,
  the quantity and the state it works on, it gives \<open>Inl\<close> of an error when its promise is
  rejected, and its effects with the new state otherwise. The handler has no \<^verbatim>\<open>try\<close>:
  it fails exactly when the call it awaits does.
\<close>

definition handleQuantityChange ::
  "(uuid \<Rightarrow> int \<Rightarrow> 's \<Rightarrow> 'e + event list \<times> 's) \<Rightarrow> uuid \<Rightarrow> int \<Rightarrow> 's
     \<Rightarrow> 'e + event list \<times> 's" where
  "handleQuantityChange updateQuantity cartItemId newQuantity st =
     (if newQuantity < 1 then Inr ([], st) else updateQuantity cartItemId newQuantity st)"

text \<open>
  What the store answers during one run of \<^verbatim>\<open>handlePlaceOrder\<close>: the identifier and
  timestamp it gives the new order (\<^verbatim>\<open>gen_random_uuid()\<close>, \<^verbatim>\<open>now()\<close>), and which requests
  come back with an error. A request that fails writes nothing.
\<close>

record responses =
  new_order_id :: uuid
  now :: nat
  order_insert_fails :: bool
  items_insert_fails :: bool
  stock_update_fails :: "cart_item \<Rightarrow> bool"

text \<open>Step 1: the order row. The insert policy \<^verbatim>\<open>auth.uid() = user_id\<close> holds by construction.\<close>

definition insert_order :: "responses \<Rightarrow> uuid \<Rightarrow> cart_item list \<Rightarrow> db \<Rightarrow> db" where
  "insert_order rs uid cartItems d =
     d\<lparr>orders := orders d @
        [\<lparr>o_id = new_order_id rs, o_user_id = uid, o_total_amount = total_of cartItems,
          o_status = ''pending'', o_created_at = now rs\<rparr>]\<rparr>"

text \<open>Step 2: one order line per cart line, with the price and size the page holds.\<close>

definition orderItems :: "uuid \<Rightarrow> cart_item list \<Rightarrow> order_item_row list" where
  "orderItems oid cartItems =
     map (\<lambda>item. \<lparr>oi_order_id = oid, oi_product_id = ci_product_id item,
                  oi_quantity = ci_quantity item, oi_price = p_price (ci_product item),
                  oi_selected_size = ci_selected_size item\<rparr>) cartItems"

definition insert_order_items :: "order_item_row list \<Rightarrow> db \<Rightarrow> db" where
  "insert_order_items rows d = d\<lparr>order_items := order_items d @ rows\<rparr>"

text \<open>
  Step 3, one iteration: \<^verbatim>\<open>update({ stock_quantity: item.product.stock_quantity - item.quantity })\<close>
  \<^verbatim>\<open>.eq('id', item.product_id)\<close>.
\<close>

definition new_stock :: "cart_item \<Rightarrow> int" where
  "new_stock item = p_stock_quantity (ci_product item) - ci_quantity item"

definition update_stock :: "uuid \<Rightarrow> cart_item \<Rightarrow> db \<Rightarrow> db" where
  "update_stock uid item d =
     update_products (Some uid) (ci_product_id item)
       (\<lambda>p. p\<lparr>p_stock_quantity := new_stock item\<rparr>) d"

text \<open>
  Step 3, the loop: an error of one update is logged and the loop goes on.
\<close>

fun update_stock_loop ::
  "responses \<Rightarrow> uuid \<Rightarrow> cart_item list \<Rightarrow> db \<Rightarrow> event list \<times> db" where
  "update_stock_loop rs uid [] d = ([], d)"
| "update_stock_loop rs uid (item # rest) d =
     (if stock_update_fails rs item
      then (let (evs, d') = update_stock_loop rs uid rest d
            in (ConsoleError ''Error updating stock:'' # evs, d'))
      else update_stock_loop rs uid rest (update_stock uid item d))"

text \<open>The \<^verbatim>\<open>catch\<close> block followed by the \<^verbatim>\<open>finally\<close> block.\<close>

definition place_order_failed :: "event list" where
  "place_order_failed =
     [ConsoleError ''Error placing order:'', ToastError ''Failed to place order'',
      SetPlacing False]"

definition place_order_succeeded :: "event list" where
  "place_order_succeeded =
     [ToastSuccess ''Order placed successfully!'', Navigate ''/orders'', SetPlacing False]"

text \<open>
  \<^verbatim>\<open>handlePlaceOrder\<close>. The hook's \<^verbatim>\<open>clearCart\<close> is a parameter: \<open>None\<close> when the promise
  it returns is rejected, the store it leaves otherwise. Every error of the body is
  thrown inside the \<^verbatim>\<open>try\<close> and caught, so the handler itself never fails: a run is
  its effects and the store it leaves.
\<close>

definition handlePlaceOrder ::
  "responses \<Rightarrow> (db \<Rightarrow> db option) \<Rightarrow> uuid option \<Rightarrow> cart_item list \<Rightarrow> db
     \<Rightarrow> event list \<times> db" where
  "handlePlaceOrder rs clearCart user cartItems d =
     (case user of
        None \<Rightarrow> ([], d)
      | Some uid \<Rightarrow>
          if cartItems = [] then ([], d)
          else if order_insert_fails rs then (SetPlacing True # place_order_failed, d)
          else
            let d1 = insert_order rs uid cartItems d in
            if items_insert_fails rs then (SetPlacing True # place_order_failed, d1)
            else
              let d2 = insert_order_items (orderItems (new_order_id rs) cartItems) d1;
                  (evs, d3) = update_stock_loop rs uid cartItems d2
              in (case clearCart d3 of
                    None \<Rightarrow> (SetPlacing True # evs @ place_order_failed, d3)
                  | Some d4 \<Rightarrow> (SetPlacing True # evs @ place_order_succeeded, d4)))"

section \<open>The catalog page (Products.tsx)\<close>

text \<open>
  \<^verbatim>\<open>String.prototype.toLowerCase\<close> on the ASCII letters, and \<^verbatim>\<open>String.prototype.includes\<close>:
  the argument occurs as a contiguous part of the string.
\<close>

definition toLowerCase_char :: "char \<Rightarrow> char" where
  "toLowerCase_char c =
     (let n = (of_char c :: nat) in if 65 \<le> n \<and> n \<le> 90 then char_of (n + 32) else c)"

definition toLowerCase :: "string \<Rightarrow> string" where
  "toLowerCase s = map toLowerCase_char s"

definition js_includes :: "string \<Rightarrow> string \<Rightarrow> bool" where
  "js_includes s t = sublist t s"

text \<open>The three price brackets of the filter; any other value of the selector matches.\<close>

definition matchesPrice :: "string \<Rightarrow> rat \<Rightarrow> bool" where
  "matchesPrice priceRange price =
     (if priceRange = ''under-100'' then price < 100
      else if priceRange = ''100-200'' then price \<ge> 100 \<and> price \<le> 200
      else if priceRange = ''over-200'' then price > 200
      else True)"

definition filteredProducts :: "product list \<Rightarrow> string \<Rightarrow> string \<Rightarrow> string \<Rightarrow> product list" where
  "filteredProducts prods searchTerm selectedBrand priceRange =
     filter (\<lambda>product.
        let matchesSearch =
              (js_includes (toLowerCase (p_name product)) (toLowerCase searchTerm) \<or>
               js_includes (toLowerCase (p_brand product)) (toLowerCase searchTerm));
            matchesBrand = (selectedBrand = ''all'' \<or> p_brand product = selectedBrand)
        in matchesSearch \<and> matchesBrand \<and> matchesPrice priceRange (p_price product)) prods"

text \<open>
  \<^verbatim>\<open>fetchProducts\<close> of the catalog page: the rows the select policy shows the caller,
  restricted by \<^verbatim>\<open>.eq('is_active', true)\<close>, newest first. The result is the list given
  to \<^verbatim>\<open>setProducts\<close>, or \<open>None\<close> when the request fails and the list stays as it was.
\<close>

definition fetchProducts :: "bool \<Rightarrow> uuid option \<Rightarrow> db \<Rightarrow> event list \<times> product list option" where
  "fetchProducts fails caller d =
     (if fails
      then ([ConsoleError ''Error fetching products:'', ToastError ''Failed to load products'',
             SetLoading False], None)
      else ([SetLoading False],
            Some (order_desc p_created_at
                    (filter (\<lambda>p. p_is_active p)
                       (filter (products_select_policy d caller) (products d))))))"

section \<open>The order history page (Orders.tsx)\<close>

text \<open>
  \<^verbatim>\<open>select(`*, order_items (*, product:products (name, image_url))`)\<close>: every order comes
  with its order lines, and every line with the name and image of its product, read
  from \<^verbatim>\<open>products\<close> under the caller's select policy; the embedded product is null
  when no visible row has the line's \<^verbatim>\<open>product_id\<close>.
\<close>

type_synonym order_item_view = "order_item_row \<times> (string \<times> string) option"

type_synonym order_view = "order_row \<times> order_item_view list"

definition embed_product :: "db \<Rightarrow> uuid option \<Rightarrow> order_item_row \<Rightarrow> (string \<times> string) option" where
  "embed_product d caller it =
     map_option (\<lambda>p. (p_name p, p_image_url p))
       (find (\<lambda>p. p_id p = oi_product_id it \<and> products_select_policy d caller p) (products d))"

definition embed_order_items :: "db \<Rightarrow> uuid option \<Rightarrow> order_row \<Rightarrow> order_item_view list" where
  "embed_order_items d caller ord =
     map (\<lambda>it. (it, embed_product d caller it))
       (filter (\<lambda>it. oi_order_id it = o_id ord \<and> order_items_select_policy d caller it)
          (order_items d))"

definition fetchOrders :: "bool \<Rightarrow> uuid option \<Rightarrow> db \<Rightarrow> event list \<times> order_view list option" where
  "fetchOrders fails user d =
     (case user of
        None \<Rightarrow> ([], None)
      | Some uid \<Rightarrow>
          if fails
          then ([ConsoleError ''Error fetching orders:'', ToastError ''Failed to load orders'',
                 SetLoading False], None)
          else ([SetLoading False],
                Some (map (\<lambda>ord. (ord, embed_order_items d user ord))
                        (order_desc o_created_at
                           (filter (\<lambda>ord. o_user_id ord = uid \<and> orders_select_policy d user ord)
                              (orders d))))))"

section \<open>The admin page (Admin.tsx)\<close>

text \<open>
  \<^verbatim>\<open>toggleProductStatus\<close> writes \<^verbatim>\<open>is_active: !currentStatus\<close> to the product. The page then
  reloads its own list, a read that is not modelled.
\<close>

definition toggleProductStatus ::
  "bool \<Rightarrow> uuid option \<Rightarrow> uuid \<Rightarrow> bool \<Rightarrow> db \<Rightarrow> event list \<times> db" where
  "toggleProductStatus fails caller productId currentStatus d =
     (if fails
      then ([ConsoleError ''Error updating product status:'',
             ToastError ''Failed to update product status''], d)
      else ([ToastSuccess (if \<not> currentStatus then ''Product activated successfully''
                           else ''Product deactivated successfully'')],
            update_products caller productId (\<lambda>p. p\<lparr>p_is_active := \<not> currentStatus\<rparr>) d))"

text \<open>
  \<^verbatim>\<open>handleSubmit\<close>: the form, already parsed by \<^verbatim>\<open>parseFloat\<close> and \<^verbatim>\<open>parseInt\<close>, is written
  to the product being edited, or inserted as a new product with the identifier and the
  timestamp the store gives it. An insert by a caller who is no admin is refused by the
  policy and fails like any other error.
\<close>

record productData =
  pd_name :: string
  pd_description :: string
  pd_price :: rat
  pd_image_url :: string
  pd_brand :: string
  pd_size_available :: "string list"
  pd_stock_quantity :: int

definition apply_productData :: "productData \<Rightarrow> product \<Rightarrow> product" where
  "apply_productData pd p =
     p\<lparr>p_name := pd_name pd, p_description := pd_description pd, p_price := pd_price pd,
       p_image_url := pd_image_url pd, p_brand := pd_brand pd,
       p_size_available := pd_size_available pd, p_stock_quantity := pd_stock_quantity pd\<rparr>"

definition handleSubmit ::
  "bool \<Rightarrow> uuid \<Rightarrow> nat \<Rightarrow> uuid option \<Rightarrow> product option \<Rightarrow> productData \<Rightarrow> db
     \<Rightarrow> event list \<times> db" where
  "handleSubmit fails new_id created caller editingProduct pd d =
     (case editingProduct of
        Some ep \<Rightarrow>
          if fails
          then ([ConsoleError ''Error saving product:'', ToastError ''Failed to save product''], d)
          else ([ToastSuccess ''Product updated successfully''],
                update_products caller (p_id ep) (apply_productData pd) d)
      | None \<Rightarrow>
          if fails \<or> \<not> is_admin d caller
          then ([ConsoleError ''Error saving product:'', ToastError ''Failed to save product''], d)
          else ([ToastSuccess ''Product added successfully''],
                d\<lparr>products := products d @
                    [apply_productData pd
                       \<lparr>p_id = new_id, p_name = [], p_description = [], p_price = 0,
                        p_image_url = [], p_brand = [], p_size_available = [],
                        p_stock_quantity = 0, p_is_active = True, p_created_at = created\<rparr>]\<rparr>))"

section \<open>The cart store\<close>

text \<open>A cart row is the line of an owner, a product and a size.\<close>

definition same_line :: "uuid \<Rightarrow> uuid \<Rightarrow> string \<Rightarrow> cart_row \<Rightarrow> bool" where
  "same_line u i v r = (c_user_id r = u \<and> c_product_id r = i \<and> c_selected_size r = v)"

text \<open>
  Modelled from the spec: \<^verbatim>\<open>addToCart\<close> of the hook \<^verbatim>\<open>useCart\<close>, which the pages import
  but which is not among the sources. The spec says: "\<^verbatim>\<open>add(owner, item, variant)\<close>
  creates a line with quantity 1 or increments an existing matching line". The
  identifier of a new row is the store's.
\<close>

definition add :: "uuid \<Rightarrow> uuid \<Rightarrow> uuid \<Rightarrow> string \<Rightarrow> cart_row list \<Rightarrow> cart_row list" where
  "add new_id u i v rows =
     (if list_ex (same_line u i v) rows
      then map (\<lambda>r. if same_line u i v r then r\<lparr>c_quantity := c_quantity r + 1\<rparr> else r) rows
      else rows @ [\<lparr>c_id = new_id, c_user_id = u, c_product_id = i, c_quantity = 1,
                    c_selected_size = v\<rparr>])"

text \<open>
  The constraint \<^verbatim>\<open>UNIQUE(user_id, product_id, selected_size)\<close> of the table \<^verbatim>\<open>cart\<close>.
\<close>

definition cart_unique :: "cart_row list \<Rightarrow> bool" where
  "cart_unique rows =
     distinct (map (\<lambda>r. (c_user_id r, c_product_id r, c_selected_size r)) rows)"

text \<open>
  Modelled from the spec: \<^verbatim>\<open>clearCart\<close> of the hook \<^verbatim>\<open>useCart\<close>, which is not among the
  sources. The spec says: "\<^verbatim>\<open>clear(owner)\<close> deletes all lines for an owner".
\<close>

definition clear :: "uuid \<Rightarrow> db \<Rightarrow> db option" where
  "clear owner d = Some (d\<lparr>cart := filter (\<lambda>r. c_user_id r \<noteq> owner) (cart d)\<rparr>)"

section \<open>Predicates on the store and the cart\<close>

text \<open>The store after both inserts of a checkout, before the stock updates.\<close>

definition after_inserts :: "responses \<Rightarrow> uuid \<Rightarrow> cart_item list \<Rightarrow> db \<Rightarrow> db" where
  "after_inserts rs uid cartItems d =
     insert_order_items (orderItems (new_order_id rs) cartItems) (insert_order rs uid cartItems d)"

text \<open>
  The two soft invariants of the spec: no stock is negative, and no cart line asks for
  more than the stock the page holds for its product.
\<close>

definition stock_nonneg :: "db \<Rightarrow> bool" where
  "stock_nonneg d = list_all (\<lambda>p. 0 \<le> p_stock_quantity p) (products d)"

definition within_stock :: "cart_item list \<Rightarrow> bool" where
  "within_stock cartItems =
     list_all (\<lambda>item. ci_quantity item \<le> p_stock_quantity (ci_product item)) cartItems"

text \<open>
  The quantity of a product in a cart, over all of the cart's lines for it; and a cart
  whose lines hold, for their product, the stock the store has.
\<close>

definition checked_out :: "cart_item list \<Rightarrow> uuid \<Rightarrow> int" where
  "checked_out cartItems pid =
     sum_list (map ci_quantity (filter (\<lambda>item. ci_product_id item = pid) cartItems))"

definition cache_fresh :: "cart_item list \<Rightarrow> db \<Rightarrow> bool" where
  "cache_fresh cartItems d =
     list_all (\<lambda>item. list_all (\<lambda>p. p_id p = ci_product_id item \<longrightarrow>
                  p_stock_quantity (ci_product item) = p_stock_quantity p) (products d)) cartItems"

text \<open>
  A cart whose lines hold, for their product, the price the store has.
\<close>

definition price_fresh :: "cart_item list \<Rightarrow> db \<Rightarrow> bool" where
  "price_fresh cartItems d =
     list_all (\<lambda>item. list_all (\<lambda>p. p_id p = ci_product_id item \<longrightarrow>
                  p_price (ci_product item) = p_price p) (products d)) cartItems"

text \<open>
  The line of a cart whose stock update is the last for a product to go through: the
  last line for the product, in the order of the loop, whose update does not fail.
\<close>

definition last_write :: "responses \<Rightarrow> cart_item list \<Rightarrow> uuid \<Rightarrow> cart_item option" where
  "last_write rs cartItems pid =
     find (\<lambda>item. ci_product_id item = pid \<and> \<not> stock_update_fails rs item) (rev cartItems)"

section \<open>A small shop\<close>

text \<open>
  Three of the products the repository's SQL inserts, a customer and two admins, each
  with a cart.
\<close>

definition nike :: product where
  "nike = \<lparr>p_id = ''p-nike'', p_name = ''Nike Air Max 270'',
            p_description = ''Comfortable running shoes with Air Max technology'',
            p_price = 129.99, p_image_url = ''nike.jpg'', p_brand = ''Nike'',
            p_size_available = [''7'', ''8'', ''9'', ''10'', ''11''],
            p_stock_quantity = 50, p_is_active = True, p_created_at = 1\<rparr>"

definition chuck :: product where
  "chuck = \<lparr>p_id = ''p-chuck'', p_name = ''Converse Chuck Taylor'',
            p_description = ''Classic canvas sneakers for everyday wear'',
            p_price = 59.99, p_image_url = ''chuck.jpg'', p_brand = ''Converse'',
            p_size_available = [''6'', ''7'', ''8'', ''9'', ''10'', ''11''],
            p_stock_quantity = 75, p_is_active = True, p_created_at = 2\<rparr>"

definition nb990 :: product where
  "nb990 = \<lparr>p_id = ''p-nb990'', p_name = ''New Balance 990v5'',
            p_description = ''Made in USA premium running shoes'',
            p_price = 199.99, p_image_url = ''nb990.jpg'', p_brand = ''New Balance'',
            p_size_available = [''7'', ''8'', ''9'', ''10'', ''11'', ''12''],
            p_stock_quantity = 20, p_is_active = True, p_created_at = 3\<rparr>"

definition shop :: db where
  "shop = \<lparr>products = [nike, chuck, nb990],
           cart = [\<lparr>c_id = ''c1'', c_user_id = ''alice'', c_product_id = ''p-nike'',
                    c_quantity = 2, c_selected_size = ''9''\<rparr>,
                   \<lparr>c_id = ''c2'', c_user_id = ''alice'', c_product_id = ''p-chuck'',
                    c_quantity = 1, c_selected_size = ''8''\<rparr>,
                   \<lparr>c_id = ''c3'', c_user_id = ''root'', c_product_id = ''p-nike'',
                    c_quantity = 1, c_selected_size = ''9''\<rparr>,
                   \<lparr>c_id = ''c4'', c_user_id = ''root'', c_product_id = ''p-nike'',
                    c_quantity = 2, c_selected_size = ''10''\<rparr>,
                   \<lparr>c_id = ''c5'', c_user_id = ''carol'', c_product_id = ''p-nb990'',
                    c_quantity = 21, c_selected_size = ''10''\<rparr>],
           orders = [], order_items = [],
           user_roles = [(''alice'', User), (''root'', Admin), (''carol'', Admin)]\<rparr>"

text \<open>Alice's cart as her cart page holds it after loading it from \<open>shop\<close>.\<close>

definition alice_cart :: "cart_item list" where
  "alice_cart =
     [\<lparr>ci_id = ''c1'', ci_product_id = ''p-nike'', ci_quantity = 2, ci_selected_size = ''9'',
       ci_product = nike\<rparr>,
      \<lparr>ci_id = ''c2'', ci_product_id = ''p-chuck'', ci_quantity = 1, ci_selected_size = ''8'',
       ci_product = chuck\<rparr>]"

text \<open>
  The admin \<open>root\<close> holds the same shoe in two sizes; the admin \<open>carol\<close> holds 21 pairs of
  a shoe of which 20 are in stock.
\<close>

definition root_cart :: "cart_item list" where
  "root_cart =
     [\<lparr>ci_id = ''c3'', ci_product_id = ''p-nike'', ci_quantity = 1, ci_selected_size = ''9'',
       ci_product = nike\<rparr>,
      \<lparr>ci_id = ''c4'', ci_product_id = ''p-nike'', ci_quantity = 2, ci_selected_size = ''10'',
       ci_product = nike\<rparr>]"

definition carol_cart :: "cart_item list" where
  "carol_cart =
     [\<lparr>ci_id = ''c5'', ci_product_id = ''p-nb990'', ci_quantity = 21, ci_selected_size = ''10'',
       ci_product = nb990\<rparr>]"

text \<open>A run in which every request succeeds.\<close>

definition all_fine :: responses where
  "all_fine = \<lparr>new_order_id = ''o1'', now = 7, order_insert_fails = False,
               items_insert_fails = False, stock_update_fails = (\<lambda>item. False)\<rparr>"

text \<open>Runs in which one kind of request fails.\<close>

definition order_down :: responses where
  "order_down = all_fine\<lparr>order_insert_fails := True\<rparr>"

definition items_down :: responses where
  "items_down = all_fine\<lparr>items_insert_fails := True\<rparr>"

definition stock_down :: responses where
  "stock_down = all_fine\<lparr>stock_update_fails := (\<lambda>item. True)\<rparr>"

text \<open>
  The shop after the admin \<open>root\<close> has raised the price of the first product with the
  product form, and the shop after the admin \<open>carol\<close> has set its stock to 10; in both
  Alice's cart page still holds what it loaded from \<open>shop\<close>.
\<close>

definition nike_form :: productData where
  "nike_form = \<lparr>pd_name = ''Nike Air Max 270'',
       pd_description = ''Comfortable running shoes with Air Max technology'',
       pd_price = 149.99, pd_image_url = ''nike.jpg'', pd_brand = ''Nike'',
       pd_size_available = [''7'', ''8'', ''9'', ''10'', ''11''], pd_stock_quantity = 50\<rparr>"

definition shop_repriced :: db where
  "shop_repriced = snd (handleSubmit False ''p-new'' 5 (Some ''root'') (Some nike) nike_form shop)"

definition shop_restocked :: db where
  "shop_restocked =
     update_products (Some ''carol'') ''p-nike'' (\<lambda>p. p\<lparr>p_stock_quantity := 10\<rparr>) shop"

text \<open>
  A stand-in for the hook's \<^verbatim>\<open>updateQuantity\<close>, used only to run \<^verbatim>\<open>handleQuantityChange\<close>:
  it writes the quantity to the cart row.
\<close>

definition write_quantity :: "uuid \<Rightarrow> int \<Rightarrow> db \<Rightarrow> string + event list \<times> db" where
  "write_quantity cartItemId n d =
     Inr ([], d\<lparr>cart := map (\<lambda>r. if c_id r = cartItemId then r\<lparr>c_quantity := n\<rparr> else r)
                           (cart d)\<rparr>)"

text \<open>
  The store after Alice's checkout, and after the admin \<open>root\<close> has then deactivated the
  first product she bought. \<open>order_summary\<close> keeps, of what \<^verbatim>\<open>fetchOrders\<close> returns, the
  order's identifier and each line's product, quantity, price and embedded product.
\<close>

definition shop_sold :: db where
  "shop_sold = snd (handlePlaceOrder all_fine (clear ''alice'') (Some ''alice'') alice_cart shop)"

definition shop_deactivated :: db where
  "shop_deactivated = snd (toggleProductStatus False (Some ''root'') ''p-nike'' True shop_sold)"

definition order_summary ::
  "order_view list option \<Rightarrow> (uuid \<times> (uuid \<times> int \<times> rat \<times> (string \<times> string) option) list) list option" where
  "order_summary res =
     map_option (map (\<lambda>(ord, lines).
        (o_id ord, map (\<lambda>(it, prod). (oi_product_id it, oi_quantity it, oi_price it, prod)) lines)))
       res"

section \<open>Facts about the checkout\<close>

lemma foldl_add_sum_list:
  "foldl (\<lambda>s x. s + f x) a xs = a + sum_list (map f xs)" for a :: rat
  by (induction xs arbitrary: a) (simp_all add: add.assoc)

lemma filter_fresh: "k \<notin> f ` set xs \<Longrightarrow> filter (\<lambda>x. f x = k) xs = []"
  by (induction xs) auto

lemma total_of_sum_list:
  "total_of cartItems =
     sum_list (map (\<lambda>it. of_int (oi_quantity it) * oi_price it) (orderItems oid cartItems))"
  by (simp add: total_of_def orderItems_def foldl_add_sum_list comp_def mult.commute)

lemma orderItems_order_id:
  "filter (\<lambda>it. oi_order_id it = oid) (orderItems oid cartItems) = orderItems oid cartItems"
  by (simp add: orderItems_def filter_map comp_def)

lemma orderItems_fields:
  "map (\<lambda>it. (oi_product_id it, oi_quantity it, oi_price it, oi_selected_size it))
       (orderItems oid cartItems)
     = map (\<lambda>item. (ci_product_id item, ci_quantity item, p_price (ci_product item),
                     ci_selected_size item)) cartItems"
  by (simp add: orderItems_def comp_def)

lemma total_of_sum:
  "total_of cartItems
     = sum_list (map (\<lambda>item. of_int (ci_quantity item) * p_price (ci_product item)) cartItems)"
  by (simp add: total_of_def foldl_add_sum_list mult.commute)

lemma orderItems_store_price:
  "price_fresh cartItems d \<Longrightarrow>
     list_all (\<lambda>it. list_all (\<lambda>p. p_id p = oi_product_id it \<longrightarrow> oi_price it = p_price p)
                 (products d)) (orderItems oid cartItems)"
  by (simp add: price_fresh_def orderItems_def list_all_iff)

lemma update_stock_frame:
  "cart (update_stock uid item d) = cart d"
  "orders (update_stock uid item d) = orders d"
  "order_items (update_stock uid item d) = order_items d"
  "user_roles (update_stock uid item d) = user_roles d"
  by (simp_all add: update_stock_def update_products_def)

lemma update_stock_loop_frame:
  "cart (snd (update_stock_loop rs uid items d)) = cart d \<and>
   orders (snd (update_stock_loop rs uid items d)) = orders d \<and>
   order_items (snd (update_stock_loop rs uid items d)) = order_items d \<and>
   user_roles (snd (update_stock_loop rs uid items d)) = user_roles d"
  by (induction items arbitrary: d) (simp_all add: update_stock_frame split_beta)

lemma update_stock_loop_events:
  "set (fst (update_stock_loop rs uid items d)) \<subseteq> {ConsoleError ''Error updating stock:''}"
  by (induction items arbitrary: d) (auto simp: split_beta)

text \<open>
  The success toast is shown only at the end of a run in which the caller is signed in,
  the cart is not empty, both inserts succeeded and \<^verbatim>\<open>clearCart\<close> was not rejected.
\<close>

lemma handlePlaceOrder_success:
  assumes run: "handlePlaceOrder rs clearCart user cartItems d = (evs, d')"
    and ok: "ToastSuccess ''Order placed successfully!'' \<in> set evs"
  shows "\<exists>uid d3. user = Some uid \<and> cartItems \<noteq> [] \<and>
      \<not> order_insert_fails rs \<and> \<not> items_insert_fails rs \<and>
      d3 = snd (update_stock_loop rs uid cartItems
           (insert_order_items (orderItems (new_order_id rs) cartItems)
              (insert_order rs uid cartItems d)))
      \<and> clearCart d3 = Some d'"
proof (cases user)
  case None
  with run ok show ?thesis by (simp add: handlePlaceOrder_def)
next
  case (Some uid)
  let ?d2 = "insert_order_items (orderItems (new_order_id rs) cartItems)
               (insert_order rs uid cartItems d)"
  obtain evs3 d3 where loop: "update_stock_loop rs uid cartItems ?d2 = (evs3, d3)"
    by (cases "update_stock_loop rs uid cartItems ?d2")
  have no: "ToastSuccess ''Order placed successfully!'' \<notin> set evs3"
    using update_stock_loop_events [of rs uid cartItems ?d2] loop by auto
  show ?thesis
    using run ok Some loop no
    by (auto simp: handlePlaceOrder_def place_order_failed_def place_order_succeeded_def Let_def
        split: if_splits option.splits)
qed

lemma update_stock_loop_logged:
  "logged (fst (update_stock_loop rs uid items d)) = list_ex (stock_update_fails rs) items"
  by (induction items arbitrary: d) (simp_all add: logged_def split_beta)

lemma update_stock_loop_not_surfaced:
  "\<not> surfaced (fst (update_stock_loop rs uid items d))"
  by (induction items arbitrary: d) (simp_all add: surfaced_def split_beta)

lemma logged_append: "logged (xs @ ys) = (logged xs \<or> logged ys)"
  by (simp add: logged_def)
lemma surfaced_append: "surfaced (xs @ ys) = (surfaced xs \<or> surfaced ys)"
  by (simp add: surfaced_def)
lemma logged_Cons: "logged (x # xs) = (is_logged x \<or> logged xs)"
  by (simp add: logged_def)
lemma surfaced_Cons: "surfaced (x # xs) = (is_surfaced x \<or> surfaced xs)"
  by (simp add: surfaced_def)
lemma failed_events: "logged place_order_failed" "surfaced place_order_failed"
  by (simp_all add: place_order_failed_def logged_def surfaced_def)
lemma succeeded_events: "\<not> logged place_order_succeeded" "\<not> surfaced place_order_succeeded"
  by (simp_all add: place_order_succeeded_def logged_def surfaced_def)

lemma update_stock_nonneg:
  "stock_nonneg d \<Longrightarrow> 0 \<le> new_stock item \<Longrightarrow> stock_nonneg (update_stock uid item d)"
  by (auto simp: stock_nonneg_def update_stock_def update_products_def list_all_iff)

lemma update_stock_loop_nonneg:
  "stock_nonneg d \<Longrightarrow> within_stock items \<Longrightarrow>
     stock_nonneg (snd (update_stock_loop rs uid items d))"
proof (induction items arbitrary: d)
  case Nil
  then show ?case by simp
next
  case (Cons item rest)
  from Cons.prems(2) have here: "0 \<le> new_stock item" and rest: "within_stock rest"
    by (simp_all add: within_stock_def new_stock_def)
  show ?case
  proof (cases "stock_update_fails rs item")
    case True
    with Cons.IH [OF Cons.prems(1) rest] show ?thesis by (simp add: split_beta)
  next
    case False
    with Cons.IH [OF update_stock_nonneg [OF Cons.prems(1) here] rest] show ?thesis by simp
  qed
qed

lemma stock_nonneg_cong: "products y = products x \<Longrightarrow> stock_nonneg y = stock_nonneg x"
  by (simp add: stock_nonneg_def)

lemma root_is_admin: "is_admin shop (Some ''root'')" "is_admin shop (Some ''carol'')"
  "\<not> is_admin shop (Some ''alice'')"
  by (simp_all add: is_admin_def has_role_def shop_def)

text \<open>A customer's checkout: the update policy admits none of her stock writes.\<close>

lemma placeOrder_by_customer_leaves_stock:
  "fst (handlePlaceOrder all_fine (clear ''alice'') (Some ''alice'') alice_cart shop)
     = [SetPlacing True, ToastSuccess ''Order placed successfully!'', Navigate ''/orders'',
        SetPlacing False]
   \<and> map (\<lambda>item. (ci_product_id item, ci_quantity item)) alice_cart = [(''p-nike'', 2), (''p-chuck'', 1)]
   \<and> map (\<lambda>p. (p_id p, p_stock_quantity p))
       (products (snd (handlePlaceOrder all_fine (clear ''alice'') (Some ''alice'') alice_cart shop)))
      = [(''p-nike'', 50), (''p-chuck'', 75), (''p-nb990'', 20)]"
  by (simp add: handlePlaceOrder_def all_fine_def clear_def alice_cart_def
      place_order_succeeded_def split_beta Let_def
      update_stock_def update_products_def products_update_policy_def is_admin_def has_role_def
      insert_order_items_def insert_order_def new_stock_def shop_def nike_def chuck_def nb990_def)

section \<open>Facts about overwriting the stock\<close>

lemma is_admin_update_products:
  "is_admin (update_products caller pid patch d) c = is_admin d c"
  by (simp add: is_admin_def has_role_def update_products_def split: option.splits)

lemma update_stock_overwrites:
  "is_admin d (Some uid) \<Longrightarrow>
     update_stock uid item
       (update_products caller (ci_product_id item) (\<lambda>p. p\<lparr>p_stock_quantity := s\<rparr>) d)
     = update_stock uid item d"
  by (auto simp: update_stock_def update_products_def products_update_policy_def
      is_admin_def has_role_def comp_def)

lemma update_stock_commutes:
  "ci_product_id item \<noteq> pid \<Longrightarrow>
     update_stock uid item (update_products caller pid (\<lambda>p. p\<lparr>p_stock_quantity := s\<rparr>) d)
     = update_products caller pid (\<lambda>p. p\<lparr>p_stock_quantity := s\<rparr>) (update_stock uid item d)"
  by (auto simp: update_stock_def update_products_def products_update_policy_def
      is_admin_def has_role_def comp_def split: option.splits)

lemma is_admin_update_stock: "is_admin (update_stock uid item d) c = is_admin d c"
  by (simp add: update_stock_def is_admin_update_products)

lemma update_stock_loop_overwrites:
  "is_admin d (Some uid) \<Longrightarrow>
   list_ex (\<lambda>item. ci_product_id item = pid \<and> \<not> stock_update_fails rs item) items \<Longrightarrow>
     update_stock_loop rs uid items
       (update_products caller pid (\<lambda>p. p\<lparr>p_stock_quantity := s\<rparr>) d)
     = update_stock_loop rs uid items d"
proof (induction items arbitrary: d)
  case Nil
  then show ?case by simp
next
  case (Cons item rest)
  show ?case
  proof (cases "stock_update_fails rs item")
    case True
    with Cons.prems have "list_ex (\<lambda>item. ci_product_id item = pid \<and> \<not> stock_update_fails rs item) rest"
      by simp
    from Cons.IH [OF Cons.prems(1) this] True show ?thesis by simp
  next
    case False
    show ?thesis
    proof (cases "ci_product_id item = pid")
      case True
      with False update_stock_overwrites [OF Cons.prems(1), of item caller s] show ?thesis
        by simp
    next
      case diff: False
      with Cons.prems have ex: "list_ex (\<lambda>item. ci_product_id item = pid \<and> \<not> stock_update_fails rs item) rest"
        by simp
      have adm: "is_admin (update_stock uid item d) (Some uid)"
        using Cons.prems(1) by (simp add: is_admin_update_stock)
      from Cons.IH [OF adm ex] False diff show ?thesis
        by (simp add: update_stock_commutes)
    qed
  qed
qed

section \<open>A checkout with one line per product\<close>

text \<open>
  When an admin checks out a cart that has one line per product and holds the store's
  stock values, and no request fails, the cart is emptied and the stock of every
  product goes down by the quantity checked out.
\<close>

lemma update_stock_products:
  "is_admin d (Some uid) \<Longrightarrow>
     products (update_stock uid item d)
       = map (\<lambda>p. if p_id p = ci_product_id item then p\<lparr>p_stock_quantity := new_stock item\<rparr> else p)
           (products d)"
  by (simp add: update_stock_def update_products_def products_update_policy_def)

lemma update_stock_loop_one_line_per_product:
  "is_admin d (Some uid) \<Longrightarrow> distinct (map ci_product_id items) \<Longrightarrow>
   \<not> list_ex (stock_update_fails rs) items \<Longrightarrow> cache_fresh items d \<Longrightarrow>
     map (\<lambda>p. (p_id p, p_stock_quantity p)) (products (snd (update_stock_loop rs uid items d)))
       = map (\<lambda>p. (p_id p, p_stock_quantity p - checked_out items (p_id p))) (products d)"
proof (induction items arbitrary: d)
  case Nil
  then show ?case by (simp add: checked_out_def)
next
  case (Cons item rest)
  let ?d1 = "update_stock uid item d"
  have adm: "is_admin ?d1 (Some uid)"
    using Cons.prems(1) by (simp add: is_admin_update_stock)
  have dist: "distinct (map ci_product_id rest)" and new: "ci_product_id item \<notin> ci_product_id ` set rest"
    using Cons.prems(2) by simp_all
  have ok: "\<not> stock_update_fails rs item" and oks: "\<not> list_ex (stock_update_fails rs) rest"
    using Cons.prems(3) by simp_all
  have p1: "products ?d1
       = map (\<lambda>p. if p_id p = ci_product_id item then p\<lparr>p_stock_quantity := new_stock item\<rparr> else p)
           (products d)"
    using Cons.prems(1) by (rule update_stock_products)
  have fresh1: "cache_fresh rest ?d1"
    using Cons.prems(4) new
    by (auto simp: cache_fresh_def p1 list_all_iff)
  have none: "checked_out rest (ci_product_id item) = 0"
    using new by (simp add: checked_out_def filter_fresh)
  have here: "\<And>p. p \<in> set (products d) \<Longrightarrow> p_id p = ci_product_id item \<Longrightarrow>
      new_stock item = p_stock_quantity p - ci_quantity item"
    using Cons.prems(4) by (auto simp: cache_fresh_def list_all_iff new_stock_def)
  have "map (\<lambda>p. (p_id p, p_stock_quantity p)) (products (snd (update_stock_loop rs uid (item # rest) d)))
      = map (\<lambda>p. (p_id p, p_stock_quantity p - checked_out rest (p_id p))) (products ?d1)"
    using Cons.IH [OF adm dist oks fresh1] ok by simp
  also have "\<dots> = map (\<lambda>p. (p_id p, p_stock_quantity p - checked_out (item # rest) (p_id p))) (products d)"
    using here none by (auto simp: p1 checked_out_def)
  finally show ?case .
qed

lemma placeOrder_one_line_per_product:
  assumes admin: "is_admin d (Some uid)"
    and nonempty: "cartItems \<noteq> []"
    and one_line: "distinct (map ci_product_id cartItems)"
    and fresh: "cache_fresh cartItems d"
    and fine: "\<not> order_insert_fails rs" "\<not> items_insert_fails rs"
              "\<not> list_ex (stock_update_fails rs) cartItems"
  shows "ToastSuccess ''Order placed successfully!''
           \<in> set (fst (handlePlaceOrder rs (clear uid) (Some uid) cartItems d))
       \<and> filter (\<lambda>r. c_user_id r = uid)
           (cart (snd (handlePlaceOrder rs (clear uid) (Some uid) cartItems d))) = []
       \<and> map (\<lambda>p. (p_id p, p_stock_quantity p))
           (products (snd (handlePlaceOrder rs (clear uid) (Some uid) cartItems d)))
          = map (\<lambda>p. (p_id p, p_stock_quantity p - checked_out cartItems (p_id p))) (products d)"
proof -
  let ?d2 = "after_inserts rs uid cartItems d"
  have adm2: "is_admin ?d2 (Some uid)"
    using admin
    by (simp add: is_admin_def has_role_def after_inserts_def insert_order_items_def insert_order_def)
  have fresh2: "cache_fresh cartItems ?d2"
    using fresh by (simp add: cache_fresh_def after_inserts_def insert_order_items_def insert_order_def)
  have p2: "products ?d2 = products d"
    by (simp add: after_inserts_def insert_order_items_def insert_order_def)
  have stock: "map (\<lambda>p. (p_id p, p_stock_quantity p))
        (products (snd (update_stock_loop rs uid cartItems ?d2)))
      = map (\<lambda>p. (p_id p, p_stock_quantity p - checked_out cartItems (p_id p))) (products d)"
    using update_stock_loop_one_line_per_product [OF adm2 one_line fine(3) fresh2] by (simp add: p2)
  have run: "handlePlaceOrder rs (clear uid) (Some uid) cartItems d
      = (SetPlacing True # fst (update_stock_loop rs uid cartItems ?d2) @ place_order_succeeded,
         (snd (update_stock_loop rs uid cartItems ?d2))
           \<lparr>cart := filter (\<lambda>r. c_user_id r \<noteq> uid)
              (cart (snd (update_stock_loop rs uid cartItems ?d2)))\<rparr>)"
    using nonempty fine(1,2)
    by (simp add: handlePlaceOrder_def Let_def split_beta clear_def after_inserts_def)
  show ?thesis
    using stock by (simp add: run place_order_succeeded_def filter_empty_conv)
qed

section \<open>What the loop of stock updates writes\<close>

lemma update_stock_loop_append:
  "snd (update_stock_loop rs uid (xs @ ys) d)
     = snd (update_stock_loop rs uid ys (snd (update_stock_loop rs uid xs d)))"
  by (induction xs arbitrary: d) (simp_all add: split_beta)

lemma is_admin_update_stock_loop:
  "is_admin (snd (update_stock_loop rs uid items d)) c = is_admin d c"
  by (simp add: is_admin_def has_role_def update_stock_loop_frame split: option.splits)

lemma update_stock_loop_log:
  "fst (update_stock_loop rs uid items d)
     = map (\<lambda>item. ConsoleError ''Error updating stock:'') (filter (stock_update_fails rs) items)"
  by (induction items arbitrary: d) (simp_all add: split_beta)

lemma update_stock_not_admitted:
  "\<not> is_admin d (Some uid) \<Longrightarrow> update_stock uid item d = d"
  by (simp add: update_stock_def update_products_def products_update_policy_def)

lemma update_stock_loop_not_admitted:
  "\<not> is_admin d (Some uid) \<Longrightarrow> snd (update_stock_loop rs uid items d) = d"
  by (induction items) (simp_all add: split_beta update_stock_not_admitted)

lemma update_stock_loop_writes:
  "is_admin d (Some uid) \<Longrightarrow>
     products (snd (update_stock_loop rs uid items d))
       = map (\<lambda>p. case last_write rs items (p_id p) of
                     None \<Rightarrow> p
                   | Some line \<Rightarrow> p\<lparr>p_stock_quantity := new_stock line\<rparr>) (products d)"
proof (induction items rule: rev_induct)
  case Nil
  then show ?case by (simp add: last_write_def)
next
  case (snoc x xs)
  let ?d1 = "snd (update_stock_loop rs uid xs d)"
  have adm: "is_admin ?d1 (Some uid)"
    using snoc.prems by (simp add: is_admin_update_stock_loop)
  have step: "snd (update_stock_loop rs uid (xs @ [x]) d)
      = (if stock_update_fails rs x then ?d1 else update_stock uid x ?d1)"
    by (simp add: update_stock_loop_append split_beta)
  show ?case
  proof (cases "stock_update_fails rs x")
    case True
    then show ?thesis
      using snoc.IH [OF snoc.prems] by (simp add: step last_write_def)
  next
    case False
    then show ?thesis
      using snoc.IH [OF snoc.prems]
      by (auto simp: step last_write_def update_stock_products [OF adm] split: option.splits)
  qed
qed

section \<open>Facts about the catalog, the cart store and the order history\<close>

lemma js_includes_empty: "js_includes s (toLowerCase [])"
  by (simp add: js_includes_def toLowerCase_def)

lemma filteredProducts_by_price:
  "filteredProducts prods [] ''all'' priceRange
     = filter (\<lambda>p. matchesPrice priceRange (p_price p)) prods"
  by (simp add: filteredProducts_def js_includes_empty)

lemma add_absent:
  "\<not> list_ex (same_line u i v) rows \<Longrightarrow>
     add n u i v rows = rows @ [\<lparr>c_id = n, c_user_id = u, c_product_id = i, c_quantity = 1,
                    c_selected_size = v\<rparr>]"
  by (simp add: add_def)

lemma map_not_same_line:
  "\<not> list_ex (same_line u i v) rows \<Longrightarrow>
     map (\<lambda>r. if same_line u i v r then f r else r) rows = rows"
  by (induction rows) simp_all

lemma shop_sold_eq:
  "shop_sold = \<lparr>products = [nike, chuck, nb990],
       cart = [\<lparr>c_id = ''c3'', c_user_id = ''root'', c_product_id = ''p-nike'',
                    c_quantity = 1, c_selected_size = ''9''\<rparr>,
                   \<lparr>c_id = ''c4'', c_user_id = ''root'', c_product_id = ''p-nike'',
                    c_quantity = 2, c_selected_size = ''10''\<rparr>,
                   \<lparr>c_id = ''c5'', c_user_id = ''carol'', c_product_id = ''p-nb990'',
                    c_quantity = 21, c_selected_size = ''10''\<rparr>],
       orders = [\<lparr>o_id = ''o1'', o_user_id = ''alice'', o_total_amount = 319.97,
                  o_status = ''pending'', o_created_at = 7\<rparr>],
       order_items = [\<lparr>oi_order_id = ''o1'', oi_product_id = ''p-nike'', oi_quantity = 2,
                       oi_price = 129.99, oi_selected_size = ''9''\<rparr>,
                      \<lparr>oi_order_id = ''o1'', oi_product_id = ''p-chuck'', oi_quantity = 1,
                       oi_price = 59.99, oi_selected_size = ''8''\<rparr>],
       user_roles = [(''alice'', User), (''root'', Admin), (''carol'', Admin)]\<rparr>"
  by (simp add: shop_sold_def handlePlaceOrder_def all_fine_def clear_def alice_cart_def
      split_beta Let_def total_of_def orderItems_def
      update_stock_def update_products_def products_update_policy_def is_admin_def has_role_def
      insert_order_items_def insert_order_def new_stock_def shop_def nike_def chuck_def nb990_def)

lemma shop_deactivated_eq:
  "shop_deactivated = shop_sold\<lparr>products := [nike\<lparr>p_is_active := False\<rparr>, chuck, nb990]\<rparr>"
  by (simp add: shop_deactivated_def toggleProductStatus_def update_products_def
      products_update_policy_def is_admin_def has_role_def shop_sold_eq)
     (simp add: nike_def chuck_def nb990_def)

lemma toggleProductStatus_keeps_order_rows:
  "orders (snd (toggleProductStatus fails caller pid st d)) = orders d
   \<and> order_items (snd (toggleProductStatus fails caller pid st d)) = order_items d"
  by (simp add: toggleProductStatus_def update_products_def)

section \<open>The claims\<close>

text \<open>
  C1. A successful \<^verbatim>\<open>handlePlaceOrder\<close> (one that ends with the success toast, which
  needs a signed-in caller and a cart with at least one line) leaves exactly one order
  with the new identifier, the caller's and pending; its order lines are the cart's lines,
  one for one, each with the product, quantity and size of the cart line and with the
  price the cart page holds for the product; the order's \<^verbatim>\<open>total_amount\<close> is the sum of
  \<open>quantity * price\<close> over the cart, which is the sum over these order lines. That price
  is the one fetched when the cart was loaded: it is the store's price at checkout when
  the cart holds the store's prices, and not otherwise, where the claim says it is the
  price when checkout ran. No later write by the admin form, a price change included,
  changes the order or its lines. The store gives the order a fresh identifier, and
  \<^verbatim>\<open>clearCart\<close> writes to neither \<^verbatim>\<open>orders\<close> nor \<^verbatim>\<open>order_items\<close>.
\<close>

theorem placeOrder_total_is_sum_of_lines:
  assumes run: "handlePlaceOrder rs clearCart user cartItems d = (evs, d')"
    and ok: "ToastSuccess ''Order placed successfully!'' \<in> set evs"
    and fresh: "new_order_id rs \<notin> o_id ` set (orders d)"
               "new_order_id rs \<notin> oi_order_id ` set (order_items d)"
    and frame: "\<And>x y. clearCart x = Some y \<Longrightarrow> orders y = orders x \<and> order_items y = order_items x"
  shows "\<exists>ord. filter (\<lambda>r. o_id r = new_order_id rs) (orders d') = [ord]
           \<and> user = Some (o_user_id ord) \<and> o_status ord = ''pending''
           \<and> map (\<lambda>it. (oi_product_id it, oi_quantity it, oi_price it, oi_selected_size it))
                (filter (\<lambda>it. oi_order_id it = new_order_id rs) (order_items d'))
               = map (\<lambda>item. (ci_product_id item, ci_quantity item, p_price (ci_product item),
                               ci_selected_size item)) cartItems
           \<and> o_total_amount ord
               = sum_list (map (\<lambda>item. of_int (ci_quantity item) * p_price (ci_product item))
                            cartItems)
           \<and> o_total_amount ord
               = sum_list (map (\<lambda>it. of_int (oi_quantity it) * oi_price it)
                            (filter (\<lambda>it. oi_order_id it = new_order_id rs) (order_items d')))
           \<and> (price_fresh cartItems d \<longrightarrow>
                list_all (\<lambda>it. list_all (\<lambda>p. p_id p = oi_product_id it \<longrightarrow> oi_price it = p_price p)
                            (products d))
                  (filter (\<lambda>it. oi_order_id it = new_order_id rs) (order_items d')))
           \<and> (\<forall>fails new_id created caller editing pd.
                 orders (snd (handleSubmit fails new_id created caller editing pd d')) = orders d'
               \<and> order_items (snd (handleSubmit fails new_id created caller editing pd d'))
                   = order_items d')"
proof -
  from handlePlaceOrder_success [OF run ok] obtain uid d3 where
    u: "user = Some uid" and
    d3: "d3 = snd (update_stock_loop rs uid cartItems
           (insert_order_items (orderItems (new_order_id rs) cartItems)
              (insert_order rs uid cartItems d)))" and
    cc: "clearCart d3 = Some d'"
    by blast
  let ?oid = "new_order_id rs"
  have o3: "orders d3 = orders d @
        [\<lparr>o_id = ?oid, o_user_id = uid, o_total_amount = total_of cartItems,
          o_status = ''pending'', o_created_at = now rs\<rparr>]"
    by (simp add: d3 update_stock_loop_frame insert_order_items_def insert_order_def)
  have i3: "order_items d3 = order_items d @ orderItems ?oid cartItems"
    by (simp add: d3 update_stock_loop_frame insert_order_items_def insert_order_def)
  have o': "orders d' = orders d3" and i': "order_items d' = order_items d3"
    using frame [OF cc] by simp_all
  have old_o: "filter (\<lambda>r. o_id r = ?oid) (orders d) = []"
    using fresh(1) by (rule filter_fresh)
  have old_i: "filter (\<lambda>it. oi_order_id it = ?oid) (order_items d) = []"
    using fresh(2) by (rule filter_fresh)
  have lines: "filter (\<lambda>it. oi_order_id it = ?oid) (order_items d') = orderItems ?oid cartItems"
    by (simp add: i' i3 old_i orderItems_order_id)
  have lt: "total_of cartItems
      = sum_list (map (\<lambda>it. of_int (oi_quantity it) * oi_price it) (orderItems ?oid cartItems))"
    by (rule total_of_sum_list)
  have later: "\<forall>fails new_id created caller editing pd.
                 orders (snd (handleSubmit fails new_id created caller editing pd d')) = orders d'
               \<and> order_items (snd (handleSubmit fails new_id created caller editing pd d'))
                   = order_items d'"
    by (simp add: handleSubmit_def update_products_def split: option.splits)
  let ?ord = "\<lparr>o_id = ?oid, o_user_id = uid, o_total_amount = total_of cartItems,
          o_status = ''pending'', o_created_at = now rs\<rparr>"
  have one: "filter (\<lambda>r. o_id r = ?oid) (orders d') = [?ord]"
    by (simp add: o' o3 old_o)
  have t1: "o_total_amount ?ord
      = sum_list (map (\<lambda>item. of_int (ci_quantity item) * p_price (ci_product item)) cartItems)"
    by (simp add: total_of_sum)
  have t2: "o_total_amount ?ord
      = sum_list (map (\<lambda>it. of_int (oi_quantity it) * oi_price it) (orderItems ?oid cartItems))"
    using lt by simp
  have st: "price_fresh cartItems d \<longrightarrow>
      list_all (\<lambda>it. list_all (\<lambda>p. p_id p = oi_product_id it \<longrightarrow> oi_price it = p_price p)
                  (products d)) (orderItems ?oid cartItems)"
    using orderItems_store_price [of cartItems d ?oid] by blast
  have who: "user = Some (o_user_id ?ord)" "o_status ?ord = ''pending''"
    by (simp_all add: u)
  show ?thesis
    unfolding lines
    using one who orderItems_fields [of ?oid cartItems] t1 t2 st later
    by blast
qed

theorem placeOrder_total_is_sum_of_lines_witness:
  "ToastSuccess ''Order placed successfully!''
     \<in> set (fst (handlePlaceOrder all_fine (clear ''alice'') (Some ''alice'') alice_cart shop))
   \<and> price_fresh alice_cart shop
   \<and> map (\<lambda>p. (p_id p, p_price p)) (products shop)
      = [(''p-nike'', 129.99), (''p-chuck'', 59.99), (''p-nb990'', 199.99)]
   \<and> (\<exists>ord. filter (\<lambda>r. o_id r = ''o1'')
            (orders (snd (handlePlaceOrder all_fine (clear ''alice'') (Some ''alice'') alice_cart shop)))
          = [ord]
        \<and> o_total_amount ord = 319.97
        \<and> map (\<lambda>it. (oi_product_id it, oi_quantity it, oi_price it, oi_selected_size it))
             (filter (\<lambda>it. oi_order_id it = ''o1'')
               (order_items (snd (handlePlaceOrder all_fine (clear ''alice'') (Some ''alice'')
                                   alice_cart shop))))
           = [(''p-nike'', 2, 129.99, ''9''), (''p-chuck'', 1, 59.99, ''8'')])"
proof -
  let ?run = "handlePlaceOrder all_fine (clear ''alice'') (Some ''alice'') alice_cart shop"
  have run: "?run = (fst ?run, snd ?run)" by simp
  have ok: "ToastSuccess ''Order placed successfully!'' \<in> set (fst ?run)"
    by (simp add: handlePlaceOrder_def all_fine_def clear_def alice_cart_def
        place_order_succeeded_def split_beta Let_def)
  have f1: "new_order_id all_fine \<notin> o_id ` set (orders shop)"
    by (simp add: shop_def)
  have f2: "new_order_id all_fine \<notin> oi_order_id ` set (order_items shop)"
    by (simp add: shop_def)
  have fr: "\<And>x y. clear ''alice'' x = Some y \<Longrightarrow> orders y = orders x \<and> order_items y = order_items x"
    by (auto simp: clear_def)
  have oid: "new_order_id all_fine = ''o1''" by (simp add: all_fine_def)
  have pf: "price_fresh alice_cart shop"
    by (simp add: price_fresh_def alice_cart_def shop_def nike_def chuck_def nb990_def)
  have prices: "map (\<lambda>p. (p_id p, p_price p)) (products shop)
      = [(''p-nike'', 129.99), (''p-chuck'', 59.99), (''p-nb990'', 199.99)]"
    by (simp add: shop_def nike_def chuck_def nb990_def)
  have cart: "map (\<lambda>item. (ci_product_id item, ci_quantity item, p_price (ci_product item),
                               ci_selected_size item)) alice_cart
      = [(''p-nike'', 2, 129.99, ''9''), (''p-chuck'', 1, 59.99, ''8'')]"
    by (simp add: alice_cart_def nike_def chuck_def)
  have tot: "sum_list (map (\<lambda>item. of_int (ci_quantity item) * p_price (ci_product item))
                            alice_cart) = 319.97"
    by (simp add: alice_cart_def nike_def chuck_def)
  {
    fix ord
    assume a: "filter (\<lambda>r. o_id r = ''o1'') (orders (snd ?run)) = [ord]"
      and b: "o_total_amount ord
          = sum_list (map (\<lambda>item. of_int (ci_quantity item) * p_price (ci_product item))
                            alice_cart)"
      and c: "map (\<lambda>it. (oi_product_id it, oi_quantity it, oi_price it, oi_selected_size it))
                (filter (\<lambda>it. oi_order_id it = ''o1'') (order_items (snd ?run)))
               = map (\<lambda>item. (ci_product_id item, ci_quantity item, p_price (ci_product item),
                               ci_selected_size item)) alice_cart"
    from b tot have b': "o_total_amount ord = 319.97" by (rule trans)
    from c cart have c': "map (\<lambda>it. (oi_product_id it, oi_quantity it, oi_price it, oi_selected_size it))
                (filter (\<lambda>it. oi_order_id it = ''o1'') (order_items (snd ?run)))
      = [(''p-nike'', 2, 129.99, ''9''), (''p-chuck'', 1, 59.99, ''8'')]"
      by (rule trans)
    from a b' c' have "\<exists>ord. filter (\<lambda>r. o_id r = ''o1'') (orders (snd ?run)) = [ord]
        \<and> o_total_amount ord = 319.97
        \<and> map (\<lambda>it. (oi_product_id it, oi_quantity it, oi_price it, oi_selected_size it))
             (filter (\<lambda>it. oi_order_id it = ''o1'') (order_items (snd ?run)))
           = [(''p-nike'', 2, 129.99, ''9''), (''p-chuck'', 1, 59.99, ''8'')]"
      by (intro exI conjI)
    with ok pf prices have ?thesis by (intro conjI)
  }
  note fin = this
  show ?thesis
    apply (rule exE [OF placeOrder_total_is_sum_of_lines [OF run ok f1 f2, unfolded oid]])
     apply (erule fr)
    apply (elim conjE)
    apply (rule fin; assumption)
    done
qed

theorem placeOrder_total_is_sum_of_lines_counterexample:
  "map (\<lambda>p. (p_id p, p_price p)) (products shop_repriced)
      = [(''p-nike'', 149.99), (''p-chuck'', 59.99), (''p-nb990'', 199.99)]
   \<and> map (\<lambda>item. (ci_product_id item, ci_quantity item)) alice_cart
      = [(''p-nike'', 2), (''p-chuck'', 1)]
   \<and> fst (handlePlaceOrder all_fine (clear ''alice'') (Some ''alice'') alice_cart shop_repriced)
      = [SetPlacing True, ToastSuccess ''Order placed successfully!'', Navigate ''/orders'',
         SetPlacing False]
   \<and> map (\<lambda>it. (oi_product_id it, oi_quantity it, oi_price it))
       (order_items (snd (handlePlaceOrder all_fine (clear ''alice'') (Some ''alice'') alice_cart
                           shop_repriced)))
      = [(''p-nike'', 2, 129.99), (''p-chuck'', 1, 59.99)]
   \<and> map o_total_amount
       (orders (snd (handlePlaceOrder all_fine (clear ''alice'') (Some ''alice'') alice_cart
                      shop_repriced)))
      = [319.97]
   \<and> \<not> price_fresh alice_cart shop_repriced
   \<and> (2 * 149.99 + 1 * 59.99 :: rat) = 359.97"
  by (simp add: shop_repriced_def handleSubmit_def apply_productData_def nike_form_def
      handlePlaceOrder_def all_fine_def clear_def alice_cart_def price_fresh_def
      place_order_succeeded_def split_beta Let_def total_of_def orderItems_def
      update_stock_def update_products_def products_update_policy_def is_admin_def has_role_def
      insert_order_items_def insert_order_def new_stock_def shop_def nike_def chuck_def nb990_def)

text \<open>
  C2. When the insert of the order (step 1) or of the order lines (step 2) fails, or when
  \<^verbatim>\<open>clearCart\<close> (step 4) is rejected, \<^verbatim>\<open>handlePlaceOrder\<close> logs the error and shows the error
  toast, and rolls nothing back: after a failed step 2 the order row of step 1 is in the
  store, and after a rejected step 4 so are the order, its lines and the stock writes.
  When a stock update (step 3) fails, the error is logged and nothing more: the loop
  goes on, the cart is cleared, and the run ends with the success toast. The claim says
  of every step that its error is surfaced; for step 3 it is not.
\<close>

theorem placeOrder_failures:
  assumes run: "handlePlaceOrder rs clearCart (Some uid) cartItems d = (evs, d')"
    and nonempty: "cartItems \<noteq> []"
  shows "(order_insert_fails rs \<longrightarrow> logged evs \<and> surfaced evs \<and> d' = d)
       \<and> (\<not> order_insert_fails rs \<and> items_insert_fails rs \<longrightarrow>
            logged evs \<and> surfaced evs \<and> d' = insert_order rs uid cartItems d)
       \<and> (\<not> order_insert_fails rs \<and> \<not> items_insert_fails rs \<and>
            clearCart (snd (update_stock_loop rs uid cartItems (after_inserts rs uid cartItems d))) = None \<longrightarrow>
            logged evs \<and> surfaced evs \<and>
            d' = snd (update_stock_loop rs uid cartItems (after_inserts rs uid cartItems d)) \<and>
            orders d' = orders (insert_order rs uid cartItems d) \<and>
            order_items d' = order_items d @ orderItems (new_order_id rs) cartItems)
       \<and> (\<not> order_insert_fails rs \<and> \<not> items_insert_fails rs \<and>
            clearCart (snd (update_stock_loop rs uid cartItems (after_inserts rs uid cartItems d))) = Some d4 \<longrightarrow>
            logged evs = list_ex (stock_update_fails rs) cartItems \<and> \<not> surfaced evs \<and>
            ToastSuccess ''Order placed successfully!'' \<in> set evs \<and> d' = d4)"
proof -
  let ?d2 = "after_inserts rs uid cartItems d"
  obtain evs3 d3 where loop: "update_stock_loop rs uid cartItems ?d2 = (evs3, d3)"
    by (cases "update_stock_loop rs uid cartItems ?d2")
  have l3: "logged evs3 = list_ex (stock_update_fails rs) cartItems"
    using update_stock_loop_logged [of rs uid cartItems ?d2] loop by simp
  have s3: "\<not> surfaced evs3"
    using update_stock_loop_not_surfaced [of rs uid cartItems ?d2] loop by simp
  have fr: "orders d3 = orders (insert_order rs uid cartItems d)"
       "order_items d3 = order_items d @ orderItems (new_order_id rs) cartItems"
    using update_stock_loop_frame [of rs uid cartItems ?d2] loop
    by (simp_all add: after_inserts_def insert_order_items_def insert_order_def)
  show ?thesis
    using run nonempty loop l3 s3 fr failed_events succeeded_events
    by (auto simp: handlePlaceOrder_def Let_def after_inserts_def [symmetric]
        logged_Cons surfaced_Cons logged_append surfaced_append place_order_succeeded_def
        split: if_splits option.splits)
qed

theorem placeOrder_failures_witness:
  "(logged (fst (handlePlaceOrder order_down (clear ''alice'') (Some ''alice'') alice_cart shop))
    \<and> surfaced (fst (handlePlaceOrder order_down (clear ''alice'') (Some ''alice'') alice_cart shop))
    \<and> snd (handlePlaceOrder order_down (clear ''alice'') (Some ''alice'') alice_cart shop) = shop)
   \<and> (surfaced (fst (handlePlaceOrder items_down (clear ''alice'') (Some ''alice'') alice_cart shop))
    \<and> snd (handlePlaceOrder items_down (clear ''alice'') (Some ''alice'') alice_cart shop)
        = insert_order items_down ''alice'' alice_cart shop)
   \<and> (surfaced (fst (handlePlaceOrder all_fine (\<lambda>d. None) (Some ''alice'') alice_cart shop))
    \<and> order_items (snd (handlePlaceOrder all_fine (\<lambda>d. None) (Some ''alice'') alice_cart shop))
        = orderItems ''o1'' alice_cart)
   \<and> (logged (fst (handlePlaceOrder stock_down (clear ''alice'') (Some ''alice'') alice_cart shop))
    \<and> \<not> surfaced (fst (handlePlaceOrder stock_down (clear ''alice'') (Some ''alice'') alice_cart shop)))"
proof -
  have ne: "alice_cart \<noteq> []" by (simp add: alice_cart_def)
  have run: "\<And>rs cc. handlePlaceOrder rs cc (Some ''alice'') alice_cart shop
      = (fst (handlePlaceOrder rs cc (Some ''alice'') alice_cart shop),
         snd (handlePlaceOrder rs cc (Some ''alice'') alice_cart shop))"
    by simp
  have 1: "order_insert_fails order_down" by (simp add: order_down_def)
  have 2: "\<not> order_insert_fails items_down \<and> items_insert_fails items_down"
    by (simp add: items_down_def all_fine_def)
  have 3: "\<not> order_insert_fails all_fine \<and> \<not> items_insert_fails all_fine \<and>
      (\<lambda>d. None) (snd (update_stock_loop all_fine ''alice'' alice_cart
                        (after_inserts all_fine ''alice'' alice_cart shop))) = None"
    by (simp add: all_fine_def)
  have 4: "\<not> order_insert_fails stock_down \<and> \<not> items_insert_fails stock_down \<and>
      clear ''alice'' (snd (update_stock_loop stock_down ''alice'' alice_cart
                        (after_inserts stock_down ''alice'' alice_cart shop)))
       = Some ((snd (update_stock_loop stock_down ''alice'' alice_cart
                        (after_inserts stock_down ''alice'' alice_cart shop)))
                 \<lparr>cart := filter (\<lambda>r. c_user_id r \<noteq> ''alice'')
                    (cart (snd (update_stock_loop stock_down ''alice'' alice_cart
                        (after_inserts stock_down ''alice'' alice_cart shop))))\<rparr>)"
    by (simp add: stock_down_def all_fine_def clear_def)
  have 5: "list_ex (stock_update_fails stock_down) alice_cart"
    by (simp add: stock_down_def alice_cart_def)
  have 6: "order_items shop = [] \<and> new_order_id all_fine = ''o1''"
    by (simp add: shop_def all_fine_def)
  have a: "logged (fst (handlePlaceOrder order_down (clear ''alice'') (Some ''alice'') alice_cart shop))
    \<and> surfaced (fst (handlePlaceOrder order_down (clear ''alice'') (Some ''alice'') alice_cart shop))
    \<and> snd (handlePlaceOrder order_down (clear ''alice'') (Some ''alice'') alice_cart shop) = shop"
    using placeOrder_failures [OF run ne, of order_down "clear ''alice''"] 1 by simp
  have b: "surfaced (fst (handlePlaceOrder items_down (clear ''alice'') (Some ''alice'') alice_cart shop))
    \<and> snd (handlePlaceOrder items_down (clear ''alice'') (Some ''alice'') alice_cart shop)
        = insert_order items_down ''alice'' alice_cart shop"
    using placeOrder_failures [OF run ne, of items_down "clear ''alice''"] 2 by simp
  have c: "surfaced (fst (handlePlaceOrder all_fine (\<lambda>d. None) (Some ''alice'') alice_cart shop))
    \<and> order_items (snd (handlePlaceOrder all_fine (\<lambda>d. None) (Some ''alice'') alice_cart shop))
        = orderItems ''o1'' alice_cart"
  proof -
    have "surfaced (fst (handlePlaceOrder all_fine (\<lambda>d. None) (Some ''alice'') alice_cart shop))
      \<and> order_items (snd (handlePlaceOrder all_fine (\<lambda>d. None) (Some ''alice'') alice_cart shop))
        = order_items shop @ orderItems (new_order_id all_fine) alice_cart"
      using placeOrder_failures [OF run ne, of all_fine "\<lambda>d. None"] 3 by blast
    then show ?thesis by (simp add: 6)
  qed
  have d: "logged (fst (handlePlaceOrder stock_down (clear ''alice'') (Some ''alice'') alice_cart shop))
    \<and> \<not> surfaced (fst (handlePlaceOrder stock_down (clear ''alice'') (Some ''alice'') alice_cart shop))"
    using placeOrder_failures [OF run ne, of stock_down "clear ''alice''"] 4 5 by simp
  show ?thesis
    using a b c d by simp
qed

theorem placeOrder_failures_counterexample:
  "stock_update_fails stock_down (hd alice_cart)
   \<and> logged (fst (handlePlaceOrder stock_down (clear ''alice'') (Some ''alice'') alice_cart shop))
   \<and> \<not> surfaced (fst (handlePlaceOrder stock_down (clear ''alice'') (Some ''alice'') alice_cart shop))
   \<and> fst (handlePlaceOrder stock_down (clear ''alice'') (Some ''alice'') alice_cart shop)
      = [SetPlacing True, ConsoleError ''Error updating stock:'', ConsoleError ''Error updating stock:'',
         ToastSuccess ''Order placed successfully!'', Navigate ''/orders'', SetPlacing False]"
  by (simp add: handlePlaceOrder_def stock_down_def all_fine_def clear_def alice_cart_def
      place_order_succeeded_def split_beta Let_def logged_def surfaced_def)

text \<open>
  C3. A checkout keeps every \<^verbatim>\<open>stock_quantity\<close> non-negative when none was negative
  before, every cart line asks for at most the stock the page holds for its product,
  and \<^verbatim>\<open>clearCart\<close> does not write to \<^verbatim>\<open>products\<close>. Without the second condition the
  claim fails: nothing in the table or in the handlers bounds the quantity by the
  stock (the page only disables its \<^verbatim>\<open>+\<close> button at the stock it holds, and the stock can
  have gone down since the line was filled), and step 3 writes the difference as it is.
  So \<open>carol\<close>, with 21 pairs in her cart and 20 in stock, leaves a stock of -1.
\<close>

theorem placeOrder_keeps_stock_nonneg:
  assumes run: "handlePlaceOrder rs clearCart user cartItems d = (evs, d')"
    and inv: "stock_nonneg d"
    and enough: "within_stock cartItems"
    and frame: "\<And>x y. clearCart x = Some y \<Longrightarrow> products y = products x"
  shows "stock_nonneg d'"
proof (cases user)
  case None
  with run inv show ?thesis by (simp add: handlePlaceOrder_def)
next
  case (Some uid)
  let ?d1 = "insert_order rs uid cartItems d"
  let ?d2 = "insert_order_items (orderItems (new_order_id rs) cartItems) ?d1"
  let ?d3 = "snd (update_stock_loop rs uid cartItems ?d2)"
  have nn1: "stock_nonneg ?d1"
    using inv by (simp add: stock_nonneg_def insert_order_def)
  have nn2: "stock_nonneg ?d2"
    using inv by (simp add: stock_nonneg_def insert_order_def insert_order_items_def)
  have nn3: "stock_nonneg ?d3"
    using nn2 enough by (rule update_stock_loop_nonneg)
  have nn4: "\<And>d4. clearCart ?d3 = Some d4 \<Longrightarrow> stock_nonneg d4"
    using nn3 stock_nonneg_cong [OF frame] by blast
  show ?thesis
    using run Some inv nn1 nn3 nn4
    by (auto simp: handlePlaceOrder_def Let_def split_beta split: if_splits option.splits)
qed

theorem placeOrder_keeps_stock_nonneg_witness:
  "stock_nonneg shop \<and> within_stock root_cart \<and> is_admin shop (Some ''root'')
   \<and> map p_stock_quantity
       (products (snd (handlePlaceOrder all_fine (clear ''root'') (Some ''root'') root_cart shop)))
      = [48, 75, 20]
   \<and> stock_nonneg (snd (handlePlaceOrder all_fine (clear ''root'') (Some ''root'') root_cart shop))"
proof -
  let ?run = "handlePlaceOrder all_fine (clear ''root'') (Some ''root'') root_cart shop"
  have run: "?run = (fst ?run, snd ?run)" by simp
  have inv: "stock_nonneg shop"
    by (simp add: stock_nonneg_def shop_def nike_def chuck_def nb990_def)
  have enough: "within_stock root_cart"
    by (simp add: within_stock_def root_cart_def nike_def)
  have fr: "\<And>x y. clear ''root'' x = Some y \<Longrightarrow> products y = products x"
    by (auto simp: clear_def)
  have written: "map p_stock_quantity (products (snd ?run)) = [48, 75, 20]"
    by (simp add: handlePlaceOrder_def all_fine_def clear_def root_cart_def
      split_beta Let_def
      update_stock_def update_products_def products_update_policy_def is_admin_def has_role_def
      insert_order_items_def insert_order_def new_stock_def shop_def nike_def chuck_def nb990_def)
  have after: "stock_nonneg (snd ?run)"
    using run inv enough by (rule placeOrder_keeps_stock_nonneg) (erule fr)
  from inv enough root_is_admin(1) written after show ?thesis by (intro conjI)
qed

theorem placeOrder_keeps_stock_nonneg_counterexample:
  "stock_nonneg shop
   \<and> \<not> within_stock carol_cart
   \<and> ToastSuccess ''Order placed successfully!''
       \<in> set (fst (handlePlaceOrder all_fine (clear ''carol'') (Some ''carol'') carol_cart shop))
   \<and> map p_stock_quantity
       (products (snd (handlePlaceOrder all_fine (clear ''carol'') (Some ''carol'') carol_cart shop)))
      = [50, 75, - 1]
   \<and> \<not> stock_nonneg (snd (handlePlaceOrder all_fine (clear ''carol'') (Some ''carol'') carol_cart shop))"
  by (simp add: handlePlaceOrder_def all_fine_def clear_def carol_cart_def
      place_order_succeeded_def split_beta Let_def stock_nonneg_def within_stock_def
      update_stock_def update_products_def products_update_policy_def is_admin_def has_role_def
      insert_order_items_def insert_order_def new_stock_def shop_def nike_def chuck_def nb990_def)

text \<open>
  C4. The claim is that a successful checkout by a single actor empties the owner's
  cart and lowers the stock of each product by the quantity checked out. The code does
  not: \<open>root\<close> checks out one pair of a shoe in one size and two pairs in another, with 50
  in stock and nothing else going on; every request succeeds, the cart is empty
  afterwards, and the stock is 48, not 47. Both lines write the stock the page held
  minus their own quantity, and the second write replaces the first. (With one line
  per product the stock does go down by the quantity, for an admin:
  \<open>placeOrder_one_line_per_product\<close> above.)
\<close>

theorem placeOrder_two_sizes_of_one_product:
  "fst (handlePlaceOrder all_fine (clear ''root'') (Some ''root'') root_cart shop)
     = [SetPlacing True, ToastSuccess ''Order placed successfully!'', Navigate ''/orders'',
        SetPlacing False]
   \<and> filter (\<lambda>r. c_user_id r = ''root'')
       (cart (snd (handlePlaceOrder all_fine (clear ''root'') (Some ''root'') root_cart shop))) = []
   \<and> map (\<lambda>item. (ci_product_id item, ci_quantity item)) root_cart = [(''p-nike'', 1), (''p-nike'', 2)]
   \<and> map (\<lambda>p. (p_id p, p_stock_quantity p)) (products shop)
      = [(''p-nike'', 50), (''p-chuck'', 75), (''p-nb990'', 20)]
   \<and> map (\<lambda>p. (p_id p, p_stock_quantity p))
       (products (snd (handlePlaceOrder all_fine (clear ''root'') (Some ''root'') root_cart shop)))
      = [(''p-nike'', 48), (''p-chuck'', 75), (''p-nb990'', 20)]"
  by (simp add: handlePlaceOrder_def all_fine_def clear_def root_cart_def
      place_order_succeeded_def split_beta Let_def
      update_stock_def update_products_def products_update_policy_def is_admin_def has_role_def
      insert_order_items_def insert_order_def new_stock_def shop_def nike_def chuck_def nb990_def)

text \<open>
  C5. \<^verbatim>\<open>handlePlaceOrder\<close> sets \<^verbatim>\<open>placing\<close> (the state Submitting) first of all when the
  caller is signed in and the cart has a line. Otherwise it returns at once: nothing is
  written, so no order is created, and nothing is logged or shown. The claim says that
  the request then fails with the error EmptyCart or Unauthenticated; the code has no
  such error and reports none.
\<close>

theorem placeOrder_guard:
  "(user \<noteq> None \<and> cartItems \<noteq> [] \<longrightarrow>
      (\<exists>rest. fst (handlePlaceOrder rs clearCart user cartItems d) = SetPlacing True # rest))
   \<and> (user = None \<or> cartItems = [] \<longrightarrow>
      handlePlaceOrder rs clearCart user cartItems d = ([], d))"
  by (cases user)
     (auto simp: handlePlaceOrder_def Let_def split_beta split: option.splits)

theorem placeOrder_guard_witness:
  "(\<exists>rest. fst (handlePlaceOrder all_fine (clear ''alice'') (Some ''alice'') alice_cart shop)
        = SetPlacing True # rest)
   \<and> handlePlaceOrder all_fine (clear ''alice'') None alice_cart shop = ([], shop)
   \<and> handlePlaceOrder all_fine (clear ''alice'') (Some ''alice'') [] shop = ([], shop)"
proof -
  have ne: "alice_cart \<noteq> []" by (simp add: alice_cart_def)
  show ?thesis
    using placeOrder_guard [of "Some ''alice''" alice_cart all_fine "clear ''alice''" shop]
      placeOrder_guard [of None alice_cart all_fine "clear ''alice''" shop]
      placeOrder_guard [of "Some ''alice''" "[]" all_fine "clear ''alice''" shop] ne
    by simp
qed

theorem placeOrder_guard_counterexample:
  "fst (handlePlaceOrder all_fine (clear ''alice'') None alice_cart shop) = []
   \<and> \<not> surfaced (fst (handlePlaceOrder all_fine (clear ''alice'') None alice_cart shop))
   \<and> \<not> logged (fst (handlePlaceOrder all_fine (clear ''alice'') None alice_cart shop))
   \<and> fst (handlePlaceOrder all_fine (clear ''alice'') (Some ''alice'') [] shop) = []
   \<and> \<not> surfaced (fst (handlePlaceOrder all_fine (clear ''alice'') (Some ''alice'') [] shop))
   \<and> \<not> logged (fst (handlePlaceOrder all_fine (clear ''alice'') (Some ''alice'') [] shop))"
  by (simp add: handlePlaceOrder_def logged_def surfaced_def)

text \<open>
  C6. With no search term and no brand selected, the price filter keeps exactly the
  products whose price is in the bracket: below 100, from 100 to 200 with both ends,
  above 200. Of the products priced 59.99, 129.99 and 199.99, \<^verbatim>\<open>under-100\<close> gives the first,
  \<^verbatim>\<open>100-200\<close> the other two, and \<^verbatim>\<open>over-200\<close> none. The claim puts 199.99 in \<^verbatim>\<open>over-200\<close>.
\<close>

theorem price_brackets:
  "filteredProducts [nb990, chuck, nike] [] ''all'' ''under-100'' = [chuck]
   \<and> filteredProducts [nb990, chuck, nike] [] ''all'' ''100-200'' = [nb990, nike]
   \<and> filteredProducts [nb990, chuck, nike] [] ''all'' ''over-200'' = []
   \<and> (\<forall>prods priceRange. filteredProducts prods [] ''all'' priceRange
         = filter (\<lambda>p. matchesPrice priceRange (p_price p)) prods)
   \<and> (\<forall>price. matchesPrice ''under-100'' price = (price < 100)
         \<and> matchesPrice ''100-200'' price = (100 \<le> price \<and> price \<le> 200)
         \<and> matchesPrice ''over-200'' price = (200 < price))"
  by (simp add: filteredProducts_by_price matchesPrice_def nike_def chuck_def nb990_def)

theorem price_brackets_counterexample:
  "p_price nb990 = 199.99
   \<and> filteredProducts [nb990, chuck, nike] [] ''all'' ''100-200'' \<noteq> [nike]
   \<and> filteredProducts [nb990, chuck, nike] [] ''all'' ''over-200'' \<noteq> [nb990]"
  by (simp add: filteredProducts_by_price matchesPrice_def nike_def chuck_def nb990_def)

text \<open>
  C7. Adding the same owner, product and size twice to a cart that has no such line
  leaves the cart as it was plus one line for them, with quantity 2; the second \<open>add\<close>
  increments the line of the first. A cart in which owner, product and size identify
  a line stays such a cart.
\<close>

theorem add_twice:
  assumes absent: "\<not> list_ex (same_line u i v) rows"
    and unique: "cart_unique rows"
  shows "add n2 u i v (add n1 u i v rows)
           = rows @ [\<lparr>c_id = n1, c_user_id = u, c_product_id = i, c_quantity = 2,
                      c_selected_size = v\<rparr>]
       \<and> filter (same_line u i v) (add n2 u i v (add n1 u i v rows))
           = [\<lparr>c_id = n1, c_user_id = u, c_product_id = i, c_quantity = 2,
               c_selected_size = v\<rparr>]
       \<and> cart_unique (add n1 u i v rows)
       \<and> cart_unique (add n2 u i v (add n1 u i v rows))"
proof -
  let ?one = "\<lparr>c_id = n1, c_user_id = u, c_product_id = i, c_quantity = 1, c_selected_size = v\<rparr>"
  let ?two = "\<lparr>c_id = n1, c_user_id = u, c_product_id = i, c_quantity = 2, c_selected_size = v\<rparr>"
  have first: "add n1 u i v rows = rows @ [?one]"
    using absent by (rule add_absent)
  have present: "list_ex (same_line u i v) (rows @ [?one])"
    by (simp add: same_line_def)
  have second: "add n2 u i v (rows @ [?one]) = rows @ [?two]"
    using present map_not_same_line [OF absent] by (simp add: add_def same_line_def)
  have none: "filter (same_line u i v) rows = []"
    using absent by (simp add: list_ex_iff filter_empty_conv)
  have key: "(u, i, v) \<notin> set (map (\<lambda>r. (c_user_id r, c_product_id r, c_selected_size r)) rows)"
    using absent by (auto simp: list_ex_iff same_line_def)
  have u1: "cart_unique (rows @ [?one])" and u2: "cart_unique (rows @ [?two])"
    using unique key by (simp_all add: cart_unique_def)
  show ?thesis
    using u1 u2 by (simp add: first second none same_line_def)
qed

theorem add_twice_witness:
  "filter (same_line ''bob'' ''p-nike'' ''9'') (add ''c7'' ''bob'' ''p-nike'' ''9'' (add ''c6'' ''bob'' ''p-nike'' ''9'' (cart shop)))
     = [\<lparr>c_id = ''c6'', c_user_id = ''bob'', c_product_id = ''p-nike'', c_quantity = 2,
         c_selected_size = ''9''\<rparr>]
   \<and> length (add ''c7'' ''bob'' ''p-nike'' ''9'' (add ''c6'' ''bob'' ''p-nike'' ''9'' (cart shop)))
      = length (cart shop) + 1"
proof -
  have absent: "\<not> list_ex (same_line ''bob'' ''p-nike'' ''9'') (cart shop)"
    by (simp add: shop_def same_line_def)
  have unique: "cart_unique (cart shop)"
    by (simp add: shop_def cart_unique_def)
  from add_twice [OF absent unique, of "''c7''" "''c6''"]
  have eq: "add ''c7'' ''bob'' ''p-nike'' ''9'' (add ''c6'' ''bob'' ''p-nike'' ''9'' (cart shop))
      = cart shop @ [\<lparr>c_id = ''c6'', c_user_id = ''bob'', c_product_id = ''p-nike'',
                      c_quantity = 2, c_selected_size = ''9''\<rparr>]"
    and one: "filter (same_line ''bob'' ''p-nike'' ''9'')
        (add ''c7'' ''bob'' ''p-nike'' ''9'' (add ''c6'' ''bob'' ''p-nike'' ''9'' (cart shop)))
      = [\<lparr>c_id = ''c6'', c_user_id = ''bob'', c_product_id = ''p-nike'', c_quantity = 2,
          c_selected_size = ''9''\<rparr>]"
    by blast+
  have len: "length (add ''c7'' ''bob'' ''p-nike'' ''9'' (add ''c6'' ''bob'' ''p-nike'' ''9'' (cart shop)))
      = length (cart shop) + 1"
    by (simp add: eq)
  from one len show ?thesis by (rule conjI)
qed

text \<open>
  C8. For a quantity below 1, \<^verbatim>\<open>handleQuantityChange\<close> returns at once: \<^verbatim>\<open>updateQuantity\<close>
  is not called, the state is unchanged, nothing is logged or shown, and the handler
  does not fail. From 1 on it is the call of \<^verbatim>\<open>updateQuantity\<close>. The claim says that the
  operation fails with the error InvalidQuantity; the code has no such error, and the
  handler returns normally.
\<close>

theorem quantity_below_one_is_ignored:
  "(newQuantity < 1 \<longrightarrow>
      handleQuantityChange updateQuantity cartItemId newQuantity st = Inr ([], st))
   \<and> (1 \<le> newQuantity \<longrightarrow>
      handleQuantityChange updateQuantity cartItemId newQuantity st
        = updateQuantity cartItemId newQuantity st)"
  by (simp add: handleQuantityChange_def)

theorem quantity_below_one_is_ignored_witness:
  "handleQuantityChange write_quantity ''c1'' 0 shop = Inr ([], shop)
   \<and> handleQuantityChange write_quantity ''c1'' (- 3) shop = Inr ([], shop)
   \<and> map_sum id (\<lambda>(evs, d). map c_quantity (cart d)) (handleQuantityChange write_quantity ''c1'' 5 shop)
      = Inr [5, 1, 1, 2, 21]"
proof -
  have "map_sum id (\<lambda>(evs, d). map c_quantity (cart d)) (write_quantity ''c1'' 5 shop)
      = Inr [5, 1, 1, 2, 21]"
    by (simp add: write_quantity_def shop_def)
  then show ?thesis
    using quantity_below_one_is_ignored [of 0 write_quantity "''c1''" shop]
      quantity_below_one_is_ignored [of "- 3" write_quantity "''c1''" shop]
      quantity_below_one_is_ignored [of 5 write_quantity "''c1''" shop]
    by simp
qed

theorem quantity_below_one_is_ignored_counterexample:
  "handleQuantityChange write_quantity ''c1'' 0 shop = Inr ([], shop)
   \<and> \<not> isl (handleQuantityChange write_quantity ''c1'' 0 shop)
   \<and> \<not> surfaced (fst (projr (handleQuantityChange write_quantity ''c1'' 0 shop)))
   \<and> \<not> logged (fst (projr (handleQuantityChange write_quantity ''c1'' 0 shop)))"
  by (simp add: handleQuantityChange_def surfaced_def logged_def)

text \<open>
  C9. The claim is that deactivating a product removes it from the catalog and leaves
  the order lines that refer to it readable in the owner's order history, name and
  image included. The code does the first and keeps the rows of \<^verbatim>\<open>order_items\<close>, but the
  name and the image are read from \<^verbatim>\<open>products\<close> under the policy that shows a customer
  active products only: once \<open>root\<close> has deactivated the shoe Alice bought,
  \<^verbatim>\<open>fetchOrders\<close> gives her order line a null product.
\<close>

theorem deactivation_hides_name_and_image:
  "order_summary (snd (fetchOrders False (Some ''alice'') shop_sold))
     = Some [(''o1'', [(''p-nike'', 2, 129.99, Some (''Nike Air Max 270'', ''nike.jpg'')),
                       (''p-chuck'', 1, 59.99, Some (''Converse Chuck Taylor'', ''chuck.jpg''))])]
   \<and> order_summary (snd (fetchOrders False (Some ''alice'') shop_deactivated))
     = Some [(''o1'', [(''p-nike'', 2, 129.99, None),
                       (''p-chuck'', 1, 59.99, Some (''Converse Chuck Taylor'', ''chuck.jpg''))])]
   \<and> map_option (map p_id) (snd (fetchProducts False (Some ''alice'') shop_sold))
     = Some [''p-nb990'', ''p-chuck'', ''p-nike'']
   \<and> map_option (map p_id) (snd (fetchProducts False (Some ''alice'') shop_deactivated))
     = Some [''p-nb990'', ''p-chuck'']
   \<and> order_items shop_deactivated = order_items shop_sold
   \<and> orders shop_deactivated = orders shop_sold"
  by (simp add: shop_deactivated_eq)
     (simp add: shop_sold_eq order_summary_def fetchOrders_def fetchProducts_def order_desc_def
      embed_order_items_def embed_product_def orders_select_policy_def
      order_items_select_policy_def products_select_policy_def is_admin_def has_role_def
      nike_def chuck_def nb990_def)

text \<open>
  C10. The value step 3 sends for a cart line is the stock the page holds for the
  product minus the line's quantity. What it writes depends on the caller. For an
  admin, whom the update policy admits, the row gets that value whatever it held:
  after the loop every product has the value of the last of its lines whose update
  went through, and a write to the product's stock between the loading of the cart
  and the checkout is lost, for one update and for the loop. For any other caller the
  update reaches no row: nothing is written and such a write stays, where the claim
  says that the value is always written and the change always discarded.
\<close>

theorem stock_write_is_absolute:
  "new_stock item = p_stock_quantity (ci_product item) - ci_quantity item
   \<and> products (update_stock uid item d)
      = map (\<lambda>p. if p_id p = ci_product_id item \<and> is_admin d (Some uid)
                 then p\<lparr>p_stock_quantity := new_stock item\<rparr> else p) (products d)
   \<and> products (snd (update_stock_loop rs uid cartItems d))
      = map (\<lambda>p. if is_admin d (Some uid)
                 then (case last_write rs cartItems (p_id p) of
                         None \<Rightarrow> p
                       | Some line \<Rightarrow> p\<lparr>p_stock_quantity := new_stock line\<rparr>)
                 else p) (products d)
   \<and> fst (update_stock_loop rs uid cartItems d)
      = map (\<lambda>line. ConsoleError ''Error updating stock:'')
          (filter (stock_update_fails rs) cartItems)
   \<and> (is_admin d (Some uid) \<longrightarrow>
        update_stock uid item
          (update_products caller (ci_product_id item) (\<lambda>p. p\<lparr>p_stock_quantity := s\<rparr>) d)
        = update_stock uid item d)
   \<and> (is_admin d (Some uid) \<and>
       list_ex (\<lambda>line. ci_product_id line = pid \<and> \<not> stock_update_fails rs line) cartItems \<longrightarrow>
        update_stock_loop rs uid cartItems
          (update_products caller pid (\<lambda>p. p\<lparr>p_stock_quantity := s\<rparr>) d)
        = update_stock_loop rs uid cartItems d)
   \<and> (\<not> is_admin d (Some uid) \<longrightarrow>
        update_stock uid item d = d \<and> snd (update_stock_loop rs uid cartItems d) = d)"
proof -
  have one: "products (update_stock uid item d)
      = map (\<lambda>p. if p_id p = ci_product_id item \<and> is_admin d (Some uid)
                 then p\<lparr>p_stock_quantity := new_stock item\<rparr> else p) (products d)"
    by (simp add: update_stock_def update_products_def products_update_policy_def)
  have loop: "products (snd (update_stock_loop rs uid cartItems d))
      = map (\<lambda>p. if is_admin d (Some uid)
                 then (case last_write rs cartItems (p_id p) of
                         None \<Rightarrow> p
                       | Some line \<Rightarrow> p\<lparr>p_stock_quantity := new_stock line\<rparr>)
                 else p) (products d)"
  proof (cases "is_admin d (Some uid)")
    case True
    then show ?thesis by (simp add: update_stock_loop_writes)
  next
    case False
    then show ?thesis by (simp add: update_stock_loop_not_admitted)
  qed
  show ?thesis
    using one loop update_stock_overwrites update_stock_loop_overwrites
      update_stock_not_admitted update_stock_loop_not_admitted
    by (simp add: new_stock_def update_stock_loop_log)
qed

theorem stock_write_is_absolute_witness:
  "is_admin shop (Some ''root'') \<and> \<not> is_admin shop (Some ''alice'')
   \<and> map p_stock_quantity (products shop) = [50, 75, 20]
   \<and> map p_stock_quantity (products shop_restocked) = [10, 75, 20]
   \<and> map p_stock_quantity (products (update_stock ''root'' (hd root_cart) shop_restocked))
      = [49, 75, 20]
   \<and> map p_stock_quantity
       (products (snd (update_stock_loop all_fine ''root'' root_cart shop_restocked)))
      = [48, 75, 20]
   \<and> update_stock ''alice'' (hd alice_cart) shop = shop"
proof -
  have adm: "is_admin shop (Some ''root'')" and cust: "\<not> is_admin shop (Some ''alice'')"
    by (rule root_is_admin)+
  have pid: "ci_product_id (hd root_cart) = ''p-nike''" by (simp add: root_cart_def)
  have ex: "list_ex (\<lambda>line. ci_product_id line = ''p-nike'' \<and> \<not> stock_update_fails all_fine line)
              root_cart"
    by (simp add: root_cart_def all_fine_def)
  note t = stock_write_is_absolute [of "hd root_cart" "''root''" shop all_fine root_cart
      "Some ''carol''" 10 "''p-nike''"]
  note t' = stock_write_is_absolute [of "hd alice_cart" "''alice''" shop all_fine alice_cart
      "Some ''carol''" 10 "''p-nike''"]
  from t adm have one: "update_stock ''root'' (hd root_cart) shop_restocked
        = update_stock ''root'' (hd root_cart) shop"
    unfolding pid shop_restocked_def by (elim conjE) (erule mp)
  from t adm ex have loop: "update_stock_loop all_fine ''root'' root_cart shop_restocked
      = update_stock_loop all_fine ''root'' root_cart shop"
    unfolding shop_restocked_def by (elim conjE) (erule mp, rule conjI)
  from t have w1: "products (update_stock ''root'' (hd root_cart) shop)
      = map (\<lambda>p. if p_id p = ci_product_id (hd root_cart) \<and> is_admin shop (Some ''root'')
                 then p\<lparr>p_stock_quantity := new_stock (hd root_cart)\<rparr> else p) (products shop)"
    by (elim conjE)
  from t have w2: "products (snd (update_stock_loop all_fine ''root'' root_cart shop))
      = map (\<lambda>p. if is_admin shop (Some ''root'')
                 then (case last_write all_fine root_cart (p_id p) of
                         None \<Rightarrow> p
                       | Some line \<Rightarrow> p\<lparr>p_stock_quantity := new_stock line\<rparr>)
                 else p) (products shop)"
    by (elim conjE)
  from t' cust have none: "update_stock ''alice'' (hd alice_cart) shop = shop"
    by (elim conjE) (drule (1) mp, erule conjunct1)
  have after1: "map p_stock_quantity (products (update_stock ''root'' (hd root_cart) shop))
      = [49, 75, 20]"
    unfolding w1
    by (simp add: adm pid)
       (simp add: new_stock_def root_cart_def shop_def nike_def chuck_def nb990_def)
  have after2: "map p_stock_quantity
       (products (snd (update_stock_loop all_fine ''root'' root_cart shop))) = [48, 75, 20]"
    unfolding w2
    by (simp add: adm)
       (simp add: last_write_def all_fine_def new_stock_def root_cart_def shop_def nike_def
          chuck_def nb990_def)
  have before: "map p_stock_quantity (products shop) = [50, 75, 20]"
    by (simp add: shop_def nike_def chuck_def nb990_def)
  have between: "map p_stock_quantity (products shop_restocked) = [10, 75, 20]"
    by (simp add: shop_restocked_def update_products_def products_update_policy_def root_is_admin)
       (simp add: shop_def nike_def chuck_def nb990_def)
  show ?thesis
    using adm cust before between after1 after2 none by (simp add: one loop)
qed

theorem stock_write_is_absolute_counterexample:
  "map p_stock_quantity (products shop) = [50, 75, 20]
   \<and> map p_stock_quantity (products shop_restocked) = [10, 75, 20]
   \<and> map (\<lambda>line. (ci_product_id line, p_stock_quantity (ci_product line), ci_quantity line,
                    new_stock line)) alice_cart
      = [(''p-nike'', 50, 2, 48), (''p-chuck'', 75, 1, 74)]
   \<and> map p_stock_quantity (products (update_stock ''alice'' (hd alice_cart) shop_restocked))
      = [10, 75, 20]
   \<and> fst (handlePlaceOrder all_fine (clear ''alice'') (Some ''alice'') alice_cart shop_restocked)
      = [SetPlacing True, ToastSuccess ''Order placed successfully!'', Navigate ''/orders'',
         SetPlacing False]
   \<and> map p_stock_quantity
       (products (snd (handlePlaceOrder all_fine (clear ''alice'') (Some ''alice'') alice_cart
                        shop_restocked)))
      = [10, 75, 20]"
  by (simp add: shop_restocked_def handlePlaceOrder_def all_fine_def clear_def alice_cart_def
      place_order_succeeded_def split_beta Let_def
      update_stock_def update_products_def products_update_policy_def is_admin_def has_role_def
      insert_order_items_def insert_order_def new_stock_def shop_def nike_def chuck_def nb990_def)

end
